theory Spec2Isabelle
  imports Main "HOL-Library.Word"
begin

unbundle bit_operations_syntax

section \<open>Machine types\<close>

text \<open>
  The fixed-width C types of \<^verbatim>\<open>guest_boot_init.c\<close> and \<^verbatim>\<open>ioports.h\<close>.
  \<^verbatim>\<open>uintptr_t\<close> and \<^verbatim>\<open>size_t\<close> are taken at 64 bits (the x86-64 build of the
  monitor). A 32-bit build is the restriction of every argument of these types to values
  below \<open>2 ^ 32\<close>: the arithmetic of \<^verbatim>\<open>make_guest_e820_map\<close> is done in the 64-bit
  fields of \<^verbatim>\<open>struct e820entry\<close> either way, and the explicit casts
  \<^verbatim>\<open>(unsigned int)\<close> and \<^verbatim>\<open>(uint32_t)\<close> of the source are no-ops there.
  Return codes of type \<^verbatim>\<open>int\<close> are HOL integers.
\<close>

type_synonym u8 = "8 word"
type_synonym u16 = "16 word"
type_synonym u32 = "32 word"
type_synonym u64 = "64 word"
type_synonym uintptr_t = "64 word"
type_synonym size_t = "64 word"

text \<open>
  A failed \<^verbatim>\<open>assert\<close> aborts the program. Each assertion of the source is one
  constructor, so that every abort is a branch of the model.
\<close>

datatype assert_failure =
    Assert_num_ram_regions      \<comment> \<open>\<^verbatim>\<open>assert(guest_memory->num_ram_regions > 0)\<close>\<close>
  | Assert_E820MAX              \<comment> \<open>\<^verbatim>\<open>assert(entry < E820MAX)\<close>\<close>
  | Assert_entry_length         \<comment> \<open>\<^verbatim>\<open>assert(e820[i].addr < e820[i].addr + e820[i].size)\<close>\<close>
  | Assert_cmd_line             \<comment> \<open>\<^verbatim>\<open>assert(!err)\<close> after \<^verbatim>\<open>make_guest_cmd_line\<close>\<close>
  | Assert_boot_info            \<comment> \<open>\<^verbatim>\<open>assert(!err)\<close> after \<^verbatim>\<open>make_guest_boot_info\<close>\<close>
  | Assert_acpi_tables          \<comment> \<open>\<^verbatim>\<open>assert(!err)\<close> after \<^verbatim>\<open>make_guest_acpi_tables\<close>\<close>

section \<open>The E820 memory map\<close>

text \<open>
  \<^verbatim>\<open>struct e820entry { u64 addr; u64 size; u32 type; }\<close> and one element of
  \<^verbatim>\<open>guest_memory->ram_regions\<close> (\<^verbatim>\<open>start\<close>, \<^verbatim>\<open>size\<close>; the allocation
  flags are never read here). The fields carry a prefix because \<open>size\<close> is a constant
  of HOL.
\<close>

record e820entry =
  e820_addr :: u64
  e820_size :: u64
  e820_type :: u32

record vm_ram_region =
  region_start :: uintptr_t
  region_size :: size_t

text \<open>
  The type tags are macros of \<^verbatim>\<open>e820.h\<close>, which is not among the sources; they have
  the values of the Linux boot protocol. The theorems below use only that they differ.
\<close>

definition E820_RAM :: u32 where
  "E820_RAM = 1"

definition E820_RESERVED :: u32 where
  "E820_RESERVED = 2"

text \<open>
  The array \<^verbatim>\<open>e820\<close> that the function writes through its pointer argument is a
  function from indices to entries; the local \<^verbatim>\<open>entry\<close> is the index of the entry
  under construction. \<^verbatim>\<open>E820MAX\<close> (also a macro of \<^verbatim>\<open>e820.h\<close>) is the
  parameter \<open>mx\<close>.
\<close>

type_synonym e820_array = "nat \<Rightarrow> e820entry"
type_synonym e820_state = "e820_array \<times> nat"

text \<open>\<^verbatim>\<open>e820[entry].size = start - e820[entry].addr + size\<close> (line 178).\<close>

definition e820_increase :: "vm_ram_region \<Rightarrow> e820_state \<Rightarrow> e820_state" where
  "e820_increase r s =
     (case s of (e820, entry) \<Rightarrow>
        (e820(entry := (e820 entry)\<lparr>e820_size :=
            region_start r - e820_addr (e820 entry) + region_size r\<rparr>), entry))"

text \<open>
  \<^verbatim>\<open>if (e820[entry].size != 0) { entry++; assert(entry < E820MAX); ... }\<close>
  (lines 163 to 168): close a non-empty entry and open a reserved one behind it.
\<close>

definition e820_finish_region :: "nat \<Rightarrow> e820_state \<Rightarrow> assert_failure + e820_state" where
  "e820_finish_region mx s =
     (case s of (e820, entry) \<Rightarrow>
        if e820_size (e820 entry) \<noteq> 0 then
          if entry + 1 < mx then
            Inr (e820(entry + 1 := (e820 (entry + 1))\<lparr>
                   e820_addr := e820_addr (e820 entry) + e820_size (e820 entry),
                   e820_type := E820_RESERVED\<rparr>), entry + 1)
          else Inl Assert_E820MAX
        else Inr (e820, entry))"

text \<open>
  \<^verbatim>\<open>e820[entry].size = start - e820[entry].addr; entry++; assert(entry < E820MAX);
  e820[entry].addr = start; e820[entry].type = E820_RAM;\<close> (lines 170 to 175).
\<close>

definition e820_pad_region :: "nat \<Rightarrow> vm_ram_region \<Rightarrow> e820_state \<Rightarrow> assert_failure + e820_state" where
  "e820_pad_region mx r s =
     (case s of (e820, entry) \<Rightarrow>
        let padded = e820(entry := (e820 entry)\<lparr>e820_size :=
                       region_start r - e820_addr (e820 entry)\<rparr>)
        in if entry + 1 < mx then
             Inr (padded(entry + 1 := (padded (entry + 1))\<lparr>
                    e820_addr := region_start r, e820_type := E820_RAM\<rparr>), entry + 1)
           else Inl Assert_E820MAX)"

text \<open>One iteration of the loop over the RAM regions (lines 158 to 178).\<close>

definition e820_add_region :: "nat \<Rightarrow> vm_ram_region \<Rightarrow> e820_state \<Rightarrow> assert_failure + e820_state" where
  "e820_add_region mx r s =
     (case s of (e820, entry) \<Rightarrow>
        if e820_addr (e820 entry) + e820_size (e820 entry) \<noteq> region_start r then
          (case e820_finish_region mx s of
             Inl f \<Rightarrow> Inl f
           | Inr s1 \<Rightarrow>
               (case e820_pad_region mx r s1 of
                  Inl f \<Rightarrow> Inl f
                | Inr s2 \<Rightarrow> Inr (e820_increase r s2)))
        else Inr (e820_increase r s))"

text \<open>The loop \<^verbatim>\<open>for (i = 0; i < num_ram_regions; i++)\<close>, by recursion on the regions left.\<close>

fun e820_regions_loop :: "nat \<Rightarrow> vm_ram_region list \<Rightarrow> e820_state \<Rightarrow> assert_failure + e820_state" where
  "e820_regions_loop mx [] s = Inr s"
| "e820_regions_loop mx (r # rs) s =
     (case e820_add_region mx r s of
        Inl f \<Rightarrow> Inl f
      | Inr s' \<Rightarrow> e820_regions_loop mx rs s')"

text \<open>The condition of the assertion in the printing loop (line 190).\<close>

definition e820_entry_nonempty :: "e820entry \<Rightarrow> bool" where
  "e820_entry_nonempty e \<longleftrightarrow> e820_addr e < e820_addr e + e820_size e"

text \<open>
  \<^verbatim>\<open>make_guest_e820_map\<close>: the result is the array as left behind and the returned
  count \<^verbatim>\<open>entry + 1\<close>, or the assertion that failed.
\<close>

definition make_guest_e820_map ::
  "nat \<Rightarrow> e820_array \<Rightarrow> vm_ram_region list \<Rightarrow> assert_failure + (e820_array \<times> nat)" where
  "make_guest_e820_map mx e820 ram_regions =
     (let e0 = e820(0 := \<lparr>e820_addr = 0, e820_size = 0, e820_type = E820_RESERVED\<rparr>)
      in if \<not> 0 < length ram_regions then Inl Assert_num_ram_regions
         else
           (case e820_regions_loop mx ram_regions (e0, 0) of
              Inl f \<Rightarrow> Inl f
            | Inr (e1, entry) \<Rightarrow>
                if entry + 1 < mx then
                  let a = e820_addr (e1 entry) + e820_size (e1 entry);
                      e2 = e1(entry + 1 := \<lparr>e820_addr = a, e820_size = 0x100000000 - a,
                                             e820_type = E820_RESERVED\<rparr>)
                  in if list_all (\<lambda>i. e820_entry_nonempty (e2 i)) [0..<entry + 2]
                     then Inr (e2, entry + 2)
                     else Inl Assert_entry_length
                else Inl Assert_E820MAX))"

text \<open>The entries a caller reads: the first \<open>n\<close> elements of the array.\<close>

definition e820_emitted :: "e820_array \<times> nat \<Rightarrow> e820entry list" where
  "e820_emitted m = map (fst m) [0..<snd m]"

text \<open>
  An array as \<^verbatim>\<open>memset(..., 0, ...)\<close> leaves it; \<^verbatim>\<open>make_guest_boot_info\<close>
  passes the map of its zeroed \<^verbatim>\<open>boot_params\<close>.
\<close>

definition e820_zeroed :: e820_array where
  "e820_zeroed = (\<lambda>i. \<lparr>e820_addr = 0, e820_size = 0, e820_type = 0\<rparr>)"

text \<open>
  Address ranges as natural numbers, so that a range that runs past the end of the
  64-bit space is visible: an entry is \<open>[e820_lo, e820_hi)\<close>, a region
  \<open>[region_lo, region_hi)\<close>.
\<close>

definition e820_lo :: "e820entry \<Rightarrow> nat" where
  "e820_lo e = unat (e820_addr e)"

definition e820_hi :: "e820entry \<Rightarrow> nat" where
  "e820_hi e = unat (e820_addr e) + unat (e820_size e)"

definition region_lo :: "vm_ram_region \<Rightarrow> nat" where
  "region_lo r = unat (region_start r)"

definition region_hi :: "vm_ram_region \<Rightarrow> nat" where
  "region_hi r = unat (region_start r) + unat (region_size r)"

text \<open>
  The precondition on the region list: sorted by start address with every region ending
  at or before the start of each later one, and every region a range of the address
  space (its end does not wrap around \<open>2 ^ 64\<close>).
\<close>

definition ram_regions_sorted :: "vm_ram_region list \<Rightarrow> bool" where
  "ram_regions_sorted rs \<longleftrightarrow>
     sorted_wrt (\<lambda>a b. region_hi a \<le> region_lo b) rs \<and>
     list_all (\<lambda>r. region_hi r < 2 ^ 64) rs"

text \<open>The same, as seen by the loop: the regions left all lie at or above the cursor \<open>c\<close>.\<close>

fun regions_from :: "nat \<Rightarrow> vm_ram_region list \<Rightarrow> bool" where
  "regions_from c [] = True"
| "regions_from c (r # rs) =
     (c \<le> region_lo r \<and> region_hi r < 2 ^ 64 \<and> regions_from (region_hi r) rs)"

text \<open>Region \<open>r\<close> lies inside one RAM-typed entry among the entries \<open>0..n\<close>.\<close>

definition e820_ram_covers :: "e820_array \<Rightarrow> nat \<Rightarrow> vm_ram_region \<Rightarrow> bool" where
  "e820_ram_covers e n r \<longleftrightarrow>
     (\<exists>k\<le>n. e820_type (e k) = E820_RAM \<and> e820_lo (e k) \<le> region_lo r \<and>
            region_hi r \<le> e820_hi (e k))"

text \<open>
  The entries \<open>es\<close>, in order, tile \<open>[lo, hi)\<close>: each starts where its predecessor
  ends, none is empty, the first starts at \<open>lo\<close> and the last ends at \<open>hi\<close>.
\<close>

fun e820_tiles :: "nat \<Rightarrow> e820entry list \<Rightarrow> nat \<Rightarrow> bool" where
  "e820_tiles lo [] hi = (lo = hi)"
| "e820_tiles lo (x # xs) hi =
     (e820_lo x = lo \<and> lo < e820_hi x \<and> e820_tiles (e820_hi x) xs hi)"


section \<open>The guest VM and its collaborators\<close>

text \<open>
  Of \<^verbatim>\<open>vm_t\<close> the functions read and write \<^verbatim>\<open>vm->arch.guest_boot_info.boot_info\<close>
  and read \<^verbatim>\<open>vm->mem\<close> (the RAM regions). Everything else the collaborators keep in
  the VM (allocations, reservations, guest memory) is the abstract part \<open>vm_rest\<close>.
\<close>

record 'x vm_t =
  guest_boot_info :: uintptr_t
  ram_regions :: "vm_ram_region list"
  vm_rest :: 'x

text \<open>
  The fields of \<^verbatim>\<open>seL4_X86_BootInfo_VBE\<close> that \<^verbatim>\<open>make_guest_screen_info\<close> reads
  (\<^verbatim>\<open>vbe_common.bytesPerScanLine\<close>, \<^verbatim>\<open>vbe12_part1\<close>, \<^verbatim>\<open>vbe12_part2\<close>,
  \<^verbatim>\<open>vbe20.physBasePtr\<close> of the mode-info block), with the widths of the kernel's
  \<^verbatim>\<open>bootinfo_types.h\<close>.
\<close>

record seL4_VBEModeInfoBlock =
  bytesPerScanLine :: u16
  xRes :: u16
  yRes :: u16
  planes :: u8
  bitsPerPixel :: u8
  redLen :: u8
  redOff :: u8
  greenLen :: u8
  greenOff :: u8
  blueLen :: u8
  blueOff :: u8
  rsvdLen :: u8
  rsvdOff :: u8
  physBasePtr :: u32

record seL4_X86_BootInfo_VBE =
  vbeModeInfoBlock :: seL4_VBEModeInfoBlock
  vbeInterfaceSeg :: u32
  vbeInterfaceOff :: u32
  vbeInterfaceLen :: u32

text \<open>
  \<^verbatim>\<open>struct screen_info\<close>: the fields that the function names, with the widths of the
  boot protocol, and the bytes of all its other fields in \<open>screen_info_rest\<close>.
\<close>

record screen_info =
  orig_video_isVGA :: u8
  lfb_width :: u16
  lfb_height :: u16
  lfb_depth :: u16
  lfb_base :: u32
  lfb_size :: u32
  lfb_linelength :: u16
  red_size :: u8
  red_pos :: u8
  green_size :: u8
  green_pos :: u8
  blue_size :: u8
  blue_pos :: u8
  rsvd_size :: u8
  rsvd_pos :: u8
  vesapm_seg :: u16
  vesapm_off :: u16
  pages :: u16
  screen_info_rest :: "u8 list"

text \<open>
  \<^verbatim>\<open>struct setup_header\<close> and \<^verbatim>\<open>struct boot_params\<close>, in the same way: the fields
  that \<^verbatim>\<open>make_guest_boot_info\<close> names, and the bytes of the others.
\<close>

record setup_header =
  version :: u16
  root_dev :: u16
  header :: u32
  boot_flag :: u16
  type_of_loader :: u8
  code32_start :: u32
  ramdisk_image :: u32
  ramdisk_size :: u32
  cmd_line_ptr :: u32
  kernel_alignment :: u32
  relocatable_kernel :: u8
  cmdline_size :: u32
  setup_header_rest :: "u8 list"

record boot_params =
  screen_info :: screen_info
  alt_mem_k :: u32
  e820_entries :: u8
  hdr :: setup_header
  e820_map :: e820_array
  boot_params_rest :: "u8 list"

text \<open>
  What \<^verbatim>\<open>vm_ram_touch\<close> is given to copy: its callback together with the cookie.
  \<^verbatim>\<open>make_guest_cmd_line_continued\<close> copies from the command line,
  \<^verbatim>\<open>guest_elf_write_address\<close> from the local \<^verbatim>\<open>boot_info\<close>.
\<close>

datatype touch_source =
    Touch_cmdline string
  | Touch_boot_params boot_params

type_synonym vm_memory_reservation = nat

text \<open>
  The collaborators, which are not part of these sources, are parameters: each is any
  function from the VM and its arguments to its result and the VM it leaves.
  A pointer result is an \<open>option\<close> (\<open>None\<close> for \<^verbatim>\<open>NULL\<close>).
  \<^verbatim>\<open>vm_reserve_anon_memory\<close> is given \<^verbatim>\<open>&base\<close>: it takes the content of
  \<^verbatim>\<open>base\<close> before the call and yields, next to its result, the content after the
  call, whether or not the result is \<^verbatim>\<open>NULL\<close>.
  \<open>E820MAX\<close> and \<open>sizeof_boot_params\<close> are the constants of the absent headers.
\<close>

record 'x platform =
  config_VMM_VESA_FRAMEBUFFER :: bool
  E820MAX :: nat
  sizeof_boot_params :: size_t
  vm_ram_allocate :: "'x vm_t \<Rightarrow> size_t \<Rightarrow> uintptr_t \<times> 'x vm_t"
  vm_ram_touch :: "'x vm_t \<Rightarrow> uintptr_t \<Rightarrow> size_t \<Rightarrow> touch_source \<Rightarrow> int \<times> 'x vm_t"
  simple_get_extended_bootinfo :: "'x vm_t \<Rightarrow> int \<times> seL4_X86_BootInfo_VBE"
  vm_reserve_memory_at ::
    "'x vm_t \<Rightarrow> uintptr_t \<Rightarrow> size_t \<Rightarrow> vm_memory_reservation option \<times> 'x vm_t"
  map_ut_alloc_reservation :: "'x vm_t \<Rightarrow> vm_memory_reservation \<Rightarrow> int \<times> 'x vm_t"
  vm_reserve_anon_memory ::
    "'x vm_t \<Rightarrow> size_t \<Rightarrow> uintptr_t
       \<Rightarrow> (vm_memory_reservation option \<times> uintptr_t) \<times> 'x vm_t"
  map_ut_alloc_reservation_with_base_paddr ::
    "'x vm_t \<Rightarrow> uintptr_t \<Rightarrow> vm_memory_reservation \<Rightarrow> int \<times> 'x vm_t"
  make_guest_acpi_tables :: "'x vm_t \<Rightarrow> int \<times> 'x vm_t"

section \<open>The command line\<close>

text \<open>
  \<^verbatim>\<open>make_guest_cmd_line\<close>. The out-parameters \<^verbatim>\<open>guest_cmd_addr\<close> and
  \<^verbatim>\<open>guest_cmd_len\<close> are the pair \<open>out\<close>, returned as the function leaves it: it is
  not written when the allocation fails. \<^verbatim>\<open>int len = strlen(cmdline)\<close> is the 32-bit
  signed reading of the length.
\<close>

definition make_guest_cmd_line ::
  "'x platform \<Rightarrow> 'x vm_t \<Rightarrow> string \<Rightarrow> uintptr_t \<times> size_t
     \<Rightarrow> int \<times> 'x vm_t \<times> (uintptr_t \<times> size_t)" where
  "make_guest_cmd_line p vm cmdline out =
     (let len = sint (word_of_nat (length cmdline) :: 32 word);
          (cmd_addr, vm1) = vm_ram_allocate p vm (word_of_int (len + 1))
      in if cmd_addr = 0 then (- 1, vm1, out)
         else
           (let (err, vm2) = vm_ram_touch p vm1 cmd_addr (word_of_int (len + 1))
                               (Touch_cmdline cmdline)
            in (err, vm2, (cmd_addr, word_of_int len))))"

section \<open>Screen information\<close>

text \<open>
  The rounding macros of the utility library: \<^verbatim>\<open>ALIGN_UP(x, n)\<close> is
  \<^verbatim>\<open>(x + n - 1) & ~(n - 1)\<close>, \<^verbatim>\<open>ROUND_DOWN(n, b)\<close> is \<^verbatim>\<open>n - n % b\<close> and
  \<^verbatim>\<open>ROUND_UP(n, b)\<close> is \<^verbatim>\<open>n + (n % b == 0 ? 0 : b - n % b)\<close>. The last is used on
  an \<^verbatim>\<open>int\<close>, whose remainder truncates towards zero.
\<close>

definition ALIGN_UP :: "u32 \<Rightarrow> u32 \<Rightarrow> u32" where
  "ALIGN_UP x n = (x + n - 1) AND NOT (n - 1)"

definition ROUND_DOWN :: "uintptr_t \<Rightarrow> uintptr_t \<Rightarrow> uintptr_t" where
  "ROUND_DOWN n b = n - n mod b"

definition c_rem :: "int \<Rightarrow> int \<Rightarrow> int" where
  "c_rem a b = sgn a * (\<bar>a\<bar> mod \<bar>b\<bar>)"

definition ROUND_UP :: "int \<Rightarrow> int \<Rightarrow> int" where
  "ROUND_UP n b = n + (if c_rem n b = 0 then 0 else b - c_rem n b)"

definition PAGE_SIZE_4K :: nat where
  "PAGE_SIZE_4K = 4096"

definition vmm_plat_vesa_fbuffer_size :: "seL4_VBEModeInfoBlock \<Rightarrow> u32" where
  "vmm_plat_vesa_fbuffer_size block =
     ALIGN_UP (ucast (bytesPerScanLine block) * ucast (yRes block)) 65536"

text \<open>
  Lines 91 to 97: the address of the protected-mode interface, and the page-aligned
  region around it (\<^verbatim>\<open>aligned_pm\<close> and the rounded \<^verbatim>\<open>size\<close>, an \<^verbatim>\<open>int\<close>
  that is converted to \<^verbatim>\<open>size_t\<close> as an argument).
\<close>

definition vbe_pm_base :: "seL4_X86_BootInfo_VBE \<Rightarrow> uintptr_t" where
  "vbe_pm_base vbeinfo = ucast (push_bit 4 (vbeInterfaceSeg vbeinfo) + vbeInterfaceOff vbeinfo)"

definition vbe_pm_aligned :: "seL4_X86_BootInfo_VBE \<Rightarrow> uintptr_t" where
  "vbe_pm_aligned vbeinfo = ROUND_DOWN (vbe_pm_base vbeinfo) (of_nat PAGE_SIZE_4K)"

definition vbe_pm_size :: "seL4_X86_BootInfo_VBE \<Rightarrow> size_t" where
  "vbe_pm_size vbeinfo =
     (let size0 = sint (ucast (ucast (vbeInterfaceLen vbeinfo) +
                          (vbe_pm_base vbeinfo - vbe_pm_aligned vbeinfo)) :: 32 word);
          size1 = sint (word_of_int (ROUND_UP size0 (int PAGE_SIZE_4K)) :: 32 word)
      in word_of_int size1)"

text \<open>
  Lines 91 to 105: map the protected-mode interface where the firmware reports it.
  The result is the local \<^verbatim>\<open>error\<close>.
\<close>

definition map_vbe_pm_interface ::
  "'x platform \<Rightarrow> 'x vm_t \<Rightarrow> seL4_X86_BootInfo_VBE \<Rightarrow> int \<times> 'x vm_t" where
  "map_vbe_pm_interface p vm vbeinfo =
     (if 0xc000 < vbe_pm_base vbeinfo then
        (case vm_reserve_memory_at p vm (vbe_pm_aligned vbeinfo) (vbe_pm_size vbeinfo) of
           (Some reservation, vm1) \<Rightarrow> map_ut_alloc_reservation p vm1 reservation
         | (None, vm1) \<Rightarrow> (- 1, vm1))
      else (0, vm))"

text \<open>
  Lines 109 to 120: reserve and map the frame buffer. \<open>base\<close> is the content of the
  local \<^verbatim>\<open>base\<close> before (0, from line 86); the result is its content after, and
  \<^verbatim>\<open>fbuffer_size\<close>. When the reservation is \<^verbatim>\<open>NULL\<close> the source only logs, and
  \<^verbatim>\<open>base\<close> stays as the call left it; when the mapping fails it is set to 0.
\<close>

definition map_vesa_fbuffer ::
  "'x platform \<Rightarrow> 'x vm_t \<Rightarrow> seL4_X86_BootInfo_VBE \<Rightarrow> uintptr_t
     \<Rightarrow> (uintptr_t \<times> size_t) \<times> 'x vm_t" where
  "map_vesa_fbuffer p vm vbeinfo base =
     (let fbuffer_size = (ucast (vmm_plat_vesa_fbuffer_size (vbeModeInfoBlock vbeinfo)) :: size_t)
      in case vm_reserve_anon_memory p vm fbuffer_size base of
           ((None, base1), vm1) \<Rightarrow> ((base1, fbuffer_size), vm1)
         | ((Some reservation, base1), vm1) \<Rightarrow>
             (let (error, vm2) = map_ut_alloc_reservation_with_base_paddr p vm1
                                   (ucast (physBasePtr (vbeModeInfoBlock vbeinfo))) reservation
              in if error \<noteq> 0 then ((0, fbuffer_size), vm2)
                 else ((base1, fbuffer_size), vm2)))"

text \<open>Lines 124 to 143: the assignments of the success case.\<close>

definition screen_info_from_vbe ::
  "seL4_X86_BootInfo_VBE \<Rightarrow> uintptr_t \<Rightarrow> size_t \<Rightarrow> screen_info \<Rightarrow> screen_info" where
  "screen_info_from_vbe vbeinfo base fbuffer_size info =
     (let m = vbeModeInfoBlock vbeinfo
      in info\<lparr>orig_video_isVGA := 0x23,
              lfb_width := xRes m,
              lfb_height := yRes m,
              lfb_depth := ucast (bitsPerPixel m),
              lfb_base := ucast base,
              lfb_size := ucast (drop_bit 16 fbuffer_size),
              lfb_linelength := bytesPerScanLine m,
              red_size := redLen m,
              red_pos := redOff m,
              green_size := greenLen m,
              green_pos := greenOff m,
              blue_size := blueLen m,
              blue_pos := blueOff m,
              rsvd_size := rsvdLen m,
              rsvd_pos := rsvdOff m,
              vesapm_seg := ucast (vbeInterfaceSeg vbeinfo),
              vesapm_off := ucast (vbeInterfaceOff vbeinfo),
              pages := ucast (planes m)\<rparr>)"

text \<open>\<^verbatim>\<open>memset(info, 0, sizeof(*info))\<close>: every byte of the block becomes 0.\<close>

definition screen_info_memset0 :: "screen_info \<Rightarrow> screen_info" where
  "screen_info_memset0 info =
     \<lparr>orig_video_isVGA = 0, lfb_width = 0, lfb_height = 0, lfb_depth = 0, lfb_base = 0,
      lfb_size = 0, lfb_linelength = 0, red_size = 0, red_pos = 0, green_size = 0,
      green_pos = 0, blue_size = 0, blue_pos = 0, rsvd_size = 0, rsvd_pos = 0,
      vesapm_seg = 0, vesapm_off = 0, pages = 0,
      screen_info_rest = map (\<lambda>b. 0) (screen_info_rest info)\<rparr>"

text \<open>
  \<^verbatim>\<open>make_guest_screen_info\<close>. The local \<^verbatim>\<open>base\<close> starts as 0 (line 86). Where
  the source leaves \<^verbatim>\<open>fbuffer_size\<close> uninitialised the model carries 0; the value is
  read only under \<^verbatim>\<open>if (base)\<close>, and \<^verbatim>\<open>base\<close> is non-zero only after
  \<^verbatim>\<open>fbuffer_size\<close> was assigned.
\<close>

definition make_guest_screen_info ::
  "'x platform \<Rightarrow> 'x vm_t \<Rightarrow> screen_info \<Rightarrow> 'x vm_t \<times> screen_info" where
  "make_guest_screen_info p vm info =
     (let (result, vbeinfo) = simple_get_extended_bootinfo p vm;
          ((base, fbuffer_size), vm') =
            (if config_VMM_VESA_FRAMEBUFFER p \<and> result \<noteq> - 1 then
               (let (error, vm1) = map_vbe_pm_interface p vm vbeinfo
                in if error \<noteq> 0 then ((0, 0), vm1)
                   else map_vesa_fbuffer p vm1 vbeinfo 0)
             else ((0, 0), vm))
      in if base \<noteq> 0 then (vm', screen_info_from_vbe vbeinfo base fbuffer_size info)
         else (vm', screen_info_memset0 info))"

text \<open>All bytes of a screen-info block are zero.\<close>

definition screen_info_all_zero :: "screen_info \<Rightarrow> bool" where
  "screen_info_all_zero info \<longleftrightarrow>
     orig_video_isVGA info = 0 \<and> lfb_width info = 0 \<and> lfb_height info = 0 \<and>
     lfb_depth info = 0 \<and> lfb_base info = 0 \<and> lfb_size info = 0 \<and>
     lfb_linelength info = 0 \<and> red_size info = 0 \<and> red_pos info = 0 \<and>
     green_size info = 0 \<and> green_pos info = 0 \<and> blue_size info = 0 \<and>
     blue_pos info = 0 \<and> rsvd_size info = 0 \<and> rsvd_pos info = 0 \<and>
     vesapm_seg info = 0 \<and> vesapm_off info = 0 \<and> pages info = 0 \<and>
     list_all (\<lambda>b. b = 0) (screen_info_rest info)"


section \<open>Boot parameters\<close>

text \<open>\<^verbatim>\<open>memset(&boot_info, 0, sizeof(struct boot_params))\<close> on the uninitialised local.\<close>

definition boot_params_memset0 :: "boot_params \<Rightarrow> boot_params" where
  "boot_params_memset0 b =
     \<lparr>screen_info = screen_info_memset0 (screen_info b),
      alt_mem_k = 0,
      e820_entries = 0,
      hdr = \<lparr>version = 0, root_dev = 0, header = 0, boot_flag = 0, type_of_loader = 0,
              code32_start = 0, ramdisk_image = 0, ramdisk_size = 0, cmd_line_ptr = 0,
              kernel_alignment = 0, relocatable_kernel = 0, cmdline_size = 0,
              setup_header_rest = map (\<lambda>b. 0) (setup_header_rest (hdr b))\<rparr>,
      e820_map = e820_zeroed,
      boot_params_rest = map (\<lambda>b. 0) (boot_params_rest b)\<rparr>"

text \<open>Lines 236 to 243: the ramdisk fields and the header version.\<close>

definition set_ramdisk :: "uintptr_t \<Rightarrow> size_t \<Rightarrow> setup_header \<Rightarrow> setup_header" where
  "set_ramdisk guest_ramdisk_load_addr guest_ramdisk_size h =
     (if guest_ramdisk_load_addr \<noteq> 0 then
        h\<lparr>ramdisk_image := ucast guest_ramdisk_load_addr,
          ramdisk_size := ucast guest_ramdisk_size,
          root_dev := 0x0100,
          version := 0x0204\<rparr>
      else h\<lparr>version := 0x0202\<rparr>)"

text \<open>
  Lines 208 to 243 of \<^verbatim>\<open>make_guest_boot_info\<close>: the local \<^verbatim>\<open>boot_info\<close> as it
  stands when it is handed to \<^verbatim>\<open>vm_ram_touch\<close>. \<open>uninit\<close> is the content of the
  local before the \<^verbatim>\<open>memset\<close>. An assertion that fails inside
  \<^verbatim>\<open>make_guest_e820_map\<close> aborts; the VM is returned as it was then.
\<close>

definition populate_boot_params ::
  "'x platform \<Rightarrow> 'x vm_t \<Rightarrow> boot_params \<Rightarrow> uintptr_t \<Rightarrow> size_t \<Rightarrow> uintptr_t \<Rightarrow> size_t
     \<Rightarrow> uintptr_t \<Rightarrow> size_t \<Rightarrow> (assert_failure \<times> 'x vm_t) + ('x vm_t \<times> boot_params)" where
  "populate_boot_params p vm uninit guest_cmd_addr guest_cmd_len guest_kernel_load_addr
       guest_kernel_alignment guest_ramdisk_load_addr guest_ramdisk_size =
     (let b0 = boot_params_memset0 uninit;
          b1 = b0\<lparr>hdr := (hdr b0)\<lparr>header := 0x53726448,
                                  boot_flag := 0xAA55,
                                  type_of_loader := 0xFF,
                                  code32_start := ucast guest_kernel_load_addr,
                                  kernel_alignment := ucast guest_kernel_alignment,
                                  relocatable_kernel := 1\<rparr>\<rparr>;
          (vm1, info) = make_guest_screen_info p vm (screen_info b1);
          b2 = b1\<lparr>screen_info := info\<rparr>
      in case make_guest_e820_map (E820MAX p) (e820_map b2) (ram_regions vm1) of
           Inl f \<Rightarrow> Inl (f, vm1)
         | Inr (e820, n) \<Rightarrow>
             (let b3 = b2\<lparr>e820_map := e820, e820_entries := of_nat n\<rparr>;
                  b4 = b3\<lparr>hdr := (hdr b3)\<lparr>cmd_line_ptr := ucast guest_cmd_addr,
                                          cmdline_size := ucast guest_cmd_len\<rparr>\<rparr>;
                  b5 = b4\<lparr>alt_mem_k := 0\<rparr>;
                  b6 = b5\<lparr>hdr := set_ramdisk guest_ramdisk_load_addr guest_ramdisk_size
                                   (hdr b5)\<rparr>
              in Inr (vm1, b6)))"

text \<open>
  \<^verbatim>\<open>make_guest_boot_info\<close>: the return value and the VM, or the abort of an
  assertion.
\<close>

definition make_guest_boot_info ::
  "'x platform \<Rightarrow> 'x vm_t \<Rightarrow> boot_params \<Rightarrow> uintptr_t \<Rightarrow> size_t \<Rightarrow> uintptr_t \<Rightarrow> size_t
     \<Rightarrow> uintptr_t \<Rightarrow> size_t \<Rightarrow> (assert_failure \<times> 'x vm_t) + (int \<times> 'x vm_t)" where
  "make_guest_boot_info p vm uninit guest_cmd_addr guest_cmd_len guest_kernel_load_addr
       guest_kernel_alignment guest_ramdisk_load_addr guest_ramdisk_size =
     (let (addr, vm1) = vm_ram_allocate p vm (sizeof_boot_params p)
      in if addr = 0 then Inr (- 1, vm1)
         else
           (let vm2 = vm1\<lparr>guest_boot_info := addr\<rparr>
            in case populate_boot_params p vm2 uninit guest_cmd_addr guest_cmd_len
                      guest_kernel_load_addr guest_kernel_alignment
                      guest_ramdisk_load_addr guest_ramdisk_size of
                 Inl a \<Rightarrow> Inl a
               | Inr (vm3, boot_info) \<Rightarrow>
                   Inr (vm_ram_touch p vm3 addr (sizeof_boot_params p)
                          (Touch_boot_params boot_info))))"

text \<open>
  \<^verbatim>\<open>vmm_plat_init_guest_boot_structure\<close>. The function returns nothing: it either
  runs to its end or stops at the first \<^verbatim>\<open>assert(!err)\<close> that fails, with the VM as
  it is at that point. \<open>out\<close> and \<open>uninit\<close> are the contents of the uninitialised
  locals.
\<close>

definition vmm_plat_init_guest_boot_structure ::
  "'x platform \<Rightarrow> 'x vm_t \<Rightarrow> uintptr_t \<times> size_t \<Rightarrow> boot_params \<Rightarrow> string \<Rightarrow> uintptr_t
     \<Rightarrow> size_t \<Rightarrow> uintptr_t \<Rightarrow> size_t \<Rightarrow> (assert_failure \<times> 'x vm_t) + 'x vm_t" where
  "vmm_plat_init_guest_boot_structure p vm out uninit cmdline guest_kernel_load_addr
       guest_kernel_alignment guest_ramdisk_load_addr guest_ramdisk_size =
     (case make_guest_cmd_line p vm cmdline out of
        (err, vm1, (guest_cmd_addr, guest_cmd_size)) \<Rightarrow>
          if err \<noteq> 0 then Inl (Assert_cmd_line, vm1)
          else
            (case make_guest_boot_info p vm1 uninit guest_cmd_addr guest_cmd_size
                    guest_kernel_load_addr guest_kernel_alignment
                    guest_ramdisk_load_addr guest_ramdisk_size of
               Inl a \<Rightarrow> Inl a
             | Inr (err, vm2) \<Rightarrow>
                 if err \<noteq> 0 then Inl (Assert_boot_info, vm2)
                 else
                   (case make_guest_acpi_tables p vm2 of
                      (err, vm3) \<Rightarrow>
                        if err \<noteq> 0 then Inl (Assert_acpi_tables, vm3) else Inr vm3)))"

section \<open>Initial vCPU state\<close>

datatype vcpu_context_reg =
    VCPU_CONTEXT_EAX
  | VCPU_CONTEXT_EBX
  | VCPU_CONTEXT_ECX
  | VCPU_CONTEXT_EDX
  | VCPU_CONTEXT_ESI
  | VCPU_CONTEXT_EDI
  | VCPU_CONTEXT_EBP

datatype vmcs_field =
    VMX_GUEST_RIP
  | VMX_other_field nat

text \<open>
  A vCPU: its register context, its VMCS fields and the VM it belongs to
  (\<^verbatim>\<open>vcpu->vm\<close>). Values are as wide as the argument expressions of the source.
\<close>

record 'x vm_vcpu_t =
  vcpu_context :: "vcpu_context_reg \<Rightarrow> uintptr_t"
  vcpu_vmcs :: "vmcs_field \<Rightarrow> uintptr_t"
  vcpu_vm :: "'x vm_t"

text \<open>
  Modelled from the spec: \<^verbatim>\<open>vm_set_thread_context_reg\<close> and \<^verbatim>\<open>vm_set_vmcs_field\<close>
  are declared outside these sources; the spec gives them as
  \<^verbatim>\<open>set_register(vcpu, register_id, value)\<close> and
  \<^verbatim>\<open>set_control_field(vcpu, field_id, value)\<close>, which store the value.
\<close>

definition vm_set_thread_context_reg ::
  "'x vm_vcpu_t \<Rightarrow> vcpu_context_reg \<Rightarrow> uintptr_t \<Rightarrow> 'x vm_vcpu_t" where
  "vm_set_thread_context_reg vcpu reg v = vcpu\<lparr>vcpu_context := (vcpu_context vcpu)(reg := v)\<rparr>"

definition vm_set_vmcs_field ::
  "'x vm_vcpu_t \<Rightarrow> vmcs_field \<Rightarrow> uintptr_t \<Rightarrow> 'x vm_vcpu_t" where
  "vm_set_vmcs_field vcpu field v = vcpu\<lparr>vcpu_vmcs := (vcpu_vmcs vcpu)(field := v)\<rparr>"

text \<open>
  \<^verbatim>\<open>vmm_init_guest_thread_state\<close>. The cast \<^verbatim>\<open>(unsigned int) guest_entry_addr\<close>
  narrows to 32 bits before the value is passed on.
\<close>

definition vmm_init_guest_thread_state :: "'x vm_vcpu_t \<Rightarrow> uintptr_t \<Rightarrow> 'x vm_vcpu_t" where
  "vmm_init_guest_thread_state vcpu guest_entry_addr =
     (let v1 = vm_set_thread_context_reg vcpu VCPU_CONTEXT_EAX 0;
          v2 = vm_set_thread_context_reg v1 VCPU_CONTEXT_EBX 0;
          v3 = vm_set_thread_context_reg v2 VCPU_CONTEXT_ECX 0;
          v4 = vm_set_thread_context_reg v3 VCPU_CONTEXT_EDX 0;
          v5 = vm_set_vmcs_field v4 VMX_GUEST_RIP (ucast (ucast guest_entry_addr :: u32))
      in vm_set_thread_context_reg v5 VCPU_CONTEXT_ESI (guest_boot_info (vcpu_vm v5)))"

section \<open>I/O port dispatch\<close>

text \<open>
  The types of \<^verbatim>\<open>ioports.h\<close>. A handler is a function of the cookie, the port and
  the access size; \<^verbatim>\<open>ioport_in_fn\<close> yields its return code and what it stored in
  \<^verbatim>\<open>*result\<close>, \<^verbatim>\<open>ioport_out_fn\<close> its return code. The fields \<^verbatim>\<open>start\<close>,
  \<^verbatim>\<open>end\<close>, \<^verbatim>\<open>range\<close> and \<^verbatim>\<open>interface\<close> carry a prefix.
\<close>

type_synonym 'c ioport_in_fn = "'c \<Rightarrow> u32 \<Rightarrow> u32 \<Rightarrow> int \<times> u32"
type_synonym 'c ioport_out_fn = "'c \<Rightarrow> u32 \<Rightarrow> u32 \<Rightarrow> u32 \<Rightarrow> int"

datatype ioport_type = IOPORT_EMULATED

record ioport_range =
  range_start :: u16
  range_end :: u16

record 'c ioport_interface =
  cookie :: 'c
  port_in :: "'c ioport_in_fn"
  port_out :: "'c ioport_out_fn"
  desc :: string

record 'c ioport_entry =
  entry_range :: ioport_range
  entry_interface :: "'c ioport_interface"
  ioport_type :: ioport_type

record 'c vmm_io_list =
  num_ioports :: int
  ioports :: "'c ioport_entry list"

datatype ioport_result = Ok | InvalidRangeError | OverlapError

text \<open>
  Modelled from the spec: \<^verbatim>\<open>vmm_io_port_init\<close> is declared in \<^verbatim>\<open>ioports.h\<close> and
  defined outside these sources; the spec has it return an empty table.
\<close>

definition vmm_io_port_init :: "'c vmm_io_list" where
  "vmm_io_port_init = \<lparr>num_ioports = 0, ioports = []\<rparr>"

text \<open>The ports of an inclusive range, and whether two inclusive ranges share a port.\<close>

definition range_ports :: "ioport_range \<Rightarrow> nat set" where
  "range_ports r = {unat (range_start r) .. unat (range_end r)}"

definition ranges_intersect :: "ioport_range \<Rightarrow> ioport_range \<Rightarrow> bool" where
  "ranges_intersect a b \<longleftrightarrow> range_start a \<le> range_end b \<and> range_start b \<le> range_end a"

text \<open>Insertion that keeps the table sorted by range start (after entries with the same start).\<close>

fun ioport_insert :: "'c ioport_entry \<Rightarrow> 'c ioport_entry list \<Rightarrow> 'c ioport_entry list" where
  "ioport_insert x [] = [x]"
| "ioport_insert x (y # ys) =
     (if range_start (entry_range x) < range_start (entry_range y) then x # y # ys
      else y # ioport_insert x ys)"

text \<open>
  Modelled from the spec: \<^verbatim>\<open>vmm_io_port_add_handler\<close> is declared in \<^verbatim>\<open>ioports.h\<close>
  and defined outside these sources. The spec: the range is given by inclusive start and
  end; the operation validates \<open>start \<le> end\<close> and fails with InvalidRangeError if the
  range is malformed, fails with OverlapError if the new range intersects any existing
  entry, and otherwise inserts, keeping the order by range start; a failure leaves the
  table as it was. The result is the outcome and the table after the call.
\<close>

definition vmm_io_port_add_handler ::
  "'c vmm_io_list \<Rightarrow> ioport_range \<Rightarrow> 'c ioport_interface \<Rightarrow> ioport_result \<times> 'c vmm_io_list" where
  "vmm_io_port_add_handler io_list ioport_range ioport_interface =
     (if \<not> range_start ioport_range \<le> range_end ioport_range then (InvalidRangeError, io_list)
      else if list_ex (\<lambda>e. ranges_intersect ioport_range (entry_range e)) (ioports io_list)
        then (OverlapError, io_list)
      else (Ok, \<lparr>num_ioports = num_ioports io_list + 1,
                 ioports = ioport_insert
                   \<lparr>entry_range = ioport_range, entry_interface = ioport_interface,
                    ioport_type = IOPORT_EMULATED\<rparr> (ioports io_list)\<rparr>))"

text \<open>The lookup of the entry whose range contains the port.\<close>

definition search_port :: "'c vmm_io_list \<Rightarrow> u32 \<Rightarrow> 'c ioport_entry option" where
  "search_port io_port port_no =
     find (\<lambda>e. unat (range_start (entry_range e)) \<le> unat port_no \<and>
               unat port_no \<le> unat (range_end (entry_range e))) (ioports io_port)"

text \<open>
  Modelled from the spec: \<^verbatim>\<open>emulate_io_handler\<close> is declared in \<^verbatim>\<open>ioports.h\<close> and
  defined outside these sources. The declaration's comment gives the results
  (0 handled, 1 unhandled, -1 error); the spec gives the three cases: no entry contains
  the port; an entry is found and the access is an input, where the input handler is
  called and, on success, its result is written to \<^verbatim>\<open>data\<close>; an entry is found and the
  access is an output, where the output handler is called with \<^verbatim>\<open>*data\<close>. A handler
  succeeds when it returns 0. The result is the return value and \<^verbatim>\<open>*data\<close> after
  the call.
\<close>

definition emulate_io_handler ::
  "'c vmm_io_list \<Rightarrow> u32 \<Rightarrow> bool \<Rightarrow> size_t \<Rightarrow> u32 \<Rightarrow> int \<times> u32" where
  "emulate_io_handler io_port port_no is_in sz data =
     (case search_port io_port port_no of
        None \<Rightarrow> (1, data)
      | Some e \<Rightarrow>
          (let i = entry_interface e
           in if is_in then
                (case port_in i (cookie i) port_no (ucast sz) of
                   (ret, result) \<Rightarrow> if ret = 0 then (0, result) else (- 1, data))
              else
                (if port_out i (cookie i) port_no (ucast sz) data = 0 then (0, data)
                 else (- 1, data))))"


section \<open>A concrete platform\<close>

text \<open>
  Concrete collaborators on which the model can be run: a firmware that reports a
  1024 x 768 mode with 32 bits per pixel, an allocator that hands out the address
  \<open>alloc\<close>, reservations and mappings that succeed, and a VM with one RAM region of
  1 MiB at 1 MiB. \<open>example_uninit\<close> is an uninitialised \<^verbatim>\<open>boot_params\<close>, every
  byte \<open>0xAA\<close>.
\<close>

definition example_vbe :: seL4_X86_BootInfo_VBE where
  "example_vbe =
     \<lparr>vbeModeInfoBlock =
        \<lparr>bytesPerScanLine = 4096, xRes = 1024, yRes = 768, planes = 1, bitsPerPixel = 32,
         redLen = 8, redOff = 16, greenLen = 8, greenOff = 8, blueLen = 8, blueOff = 0,
         rsvdLen = 8, rsvdOff = 24, physBasePtr = 0xE0000000\<rparr>,
      vbeInterfaceSeg = 0xC000, vbeInterfaceOff = 0x1000, vbeInterfaceLen = 0x100\<rparr>"

definition example_platform :: "bool \<Rightarrow> uintptr_t \<Rightarrow> unit platform" where
  "example_platform vesa alloc =
     \<lparr>config_VMM_VESA_FRAMEBUFFER = vesa,
      E820MAX = 128,
      sizeof_boot_params = 4096,
      vm_ram_allocate = (\<lambda>vm sz. (alloc, vm)),
      vm_ram_touch = (\<lambda>vm addr sz src. (0, vm)),
      simple_get_extended_bootinfo = (\<lambda>vm. (0, example_vbe)),
      vm_reserve_memory_at = (\<lambda>vm addr sz. (Some 1, vm)),
      map_ut_alloc_reservation = (\<lambda>vm r. (0, vm)),
      vm_reserve_anon_memory = (\<lambda>vm sz base. ((Some 2, 0xE0000000), vm)),
      map_ut_alloc_reservation_with_base_paddr = (\<lambda>vm addr r. (0, vm)),
      make_guest_acpi_tables = (\<lambda>vm. (0, vm))\<rparr>"

definition example_vm :: "unit vm_t" where
  "example_vm =
     \<lparr>guest_boot_info = 0,
      ram_regions = [\<lparr>region_start = 0x100000, region_size = 0x100000\<rparr>],
      vm_rest = ()\<rparr>"

definition example_uninit_screen_info :: screen_info where
  "example_uninit_screen_info =
     \<lparr>orig_video_isVGA = 0xAA, lfb_width = 0xAAAA, lfb_height = 0xAAAA, lfb_depth = 0xAAAA,
      lfb_base = 0xAAAAAAAA, lfb_size = 0xAAAAAAAA, lfb_linelength = 0xAAAA,
      red_size = 0xAA, red_pos = 0xAA, green_size = 0xAA, green_pos = 0xAA,
      blue_size = 0xAA, blue_pos = 0xAA, rsvd_size = 0xAA, rsvd_pos = 0xAA,
      vesapm_seg = 0xAAAA, vesapm_off = 0xAAAA, pages = 0xAAAA,
      screen_info_rest = [0xAA, 0xAA]\<rparr>"

definition example_uninit :: boot_params where
  "example_uninit =
     \<lparr>screen_info = example_uninit_screen_info,
      alt_mem_k = 0xAAAAAAAA,
      e820_entries = 0xAA,
      hdr = \<lparr>version = 0xAAAA, root_dev = 0xAAAA, header = 0xAAAAAAAA, boot_flag = 0xAAAA,
              type_of_loader = 0xAA, code32_start = 0xAAAAAAAA, ramdisk_image = 0xAAAAAAAA,
              ramdisk_size = 0xAAAAAAAA, cmd_line_ptr = 0xAAAAAAAA,
              kernel_alignment = 0xAAAAAAAA, relocatable_kernel = 0xAA,
              cmdline_size = 0xAAAAAAAA, setup_header_rest = [0xAA, 0xAA]\<rparr>,
      e820_map = (\<lambda>i. \<lparr>e820_addr = 0xAAAAAAAAAAAAAAAA, e820_size = 0xAAAAAAAAAAAAAAAA,
                          e820_type = 0xAAAAAAAA\<rparr>),
      boot_params_rest = [0xAA, 0xAA]\<rparr>"

text \<open>
  An emulated device for the port table: its input handler answers \<open>0x1C\<close>, its
  output handler accepts every value but \<open>0xFF\<close>.
\<close>

definition example_interface :: "unit ioport_interface" where
  "example_interface =
     \<lparr>cookie = (),
      port_in = (\<lambda>c port_no sz. (0, 0x1C)),
      port_out = (\<lambda>c port_no sz v. if v = 0xFF then - 1 else 0),
      desc = ''kbd''\<rparr>"

definition example_io_list :: "unit vmm_io_list" where
  "example_io_list =
     snd (vmm_io_port_add_handler vmm_io_port_init
            \<lparr>range_start = 0x60, range_end = 0x64\<rparr> example_interface)"

section \<open>Properties of the E820 map\<close>

subsection \<open>Arithmetic of one loop iteration\<close>

lemma u64_add_nowrap:
  fixes a s :: u64
  assumes "unat a + unat s < 2 ^ 64"
  shows "unat (a + s) = unat a + unat s"
  using assms unat_add_lem [of a s] by simp

lemma u64_sub_nowrap:
  fixes a b :: u64
  assumes "unat b \<le> unat a"
  shows "unat (a - b) = unat a - unat b"
  using assms by (simp add: unat_sub word_le_nat_alt)

lemma e820_contiguous_arith:
  fixes a s st sz :: u64
  assumes "unat a + unat s \<le> unat st" and "unat st + unat sz < 2 ^ 64" and "a + s = st"
  shows "unat a + unat s = unat st" and "unat (st - a + sz) = unat s + unat sz"
proof -
  have nw: "unat a + unat s < 2 ^ 64"
    using assms(1) unsigned_less [of st, where 'a = nat] by simp
  from u64_add_nowrap [OF nw] assms(3) show c: "unat a + unat s = unat st"
    by simp
  have "st - a = s" using assms(3) by auto
  moreover have "unat (s + sz) = unat s + unat sz"
    using c assms(2) by (intro u64_add_nowrap) simp
  ultimately show "unat (st - a + sz) = unat s + unat sz" by simp
qed

lemma e820_gap_arith:
  fixes a s st :: u64
  assumes "unat a + unat s \<le> unat st" and "a + s \<noteq> st"
  shows "unat a + unat s < unat st"
    and "unat (a + s) = unat a + unat s"
    and "unat (st - (a + s)) = unat st - (unat a + unat s)"
    and "unat (st - a) = unat st - unat a"
proof -
  have nw: "unat a + unat s < 2 ^ 64"
    using assms(1) unsigned_less [of st, where 'a = nat] by simp
  show s: "unat (a + s) = unat a + unat s"
    by (rule u64_add_nowrap [OF nw])
  have "unat (a + s) \<noteq> unat st"
    using assms(2) word_unat_eq_iff by blast
  with assms(1) s show "unat a + unat s < unat st" by simp
  show "unat (st - (a + s)) = unat st - (unat a + unat s)"
    using assms(1) s by (simp add: u64_sub_nowrap)
  show "unat (st - a) = unat st - unat a"
    using assms(1) by (simp add: u64_sub_nowrap)
qed

lemma e820_add_region_effect:
  assumes step: "e820_add_region mx r (e, n) = Inr (e', n')"
    and cur: "e820_hi (e n) \<le> region_lo r"
    and r: "region_hi r < 2 ^ 64"
  shows "n \<le> n'"
    and "\<forall>k<n. e' k = e k"
    and "e820_addr (e' n) = e820_addr (e n)"
    and "e820_type (e' n) = e820_type (e n)"
    and "unat (e820_size (e n)) \<le> unat (e820_size (e' n))"
    and "e820_lo (e' n') \<le> region_lo r"
    and "e820_hi (e' n') = region_hi r"
    and "\<forall>k. n \<le> k \<and> k < n' \<longrightarrow> e820_hi (e' k) = e820_lo (e' (Suc k)) \<and> e820_size (e' k) \<noteq> 0"
    and "n' \<le> n + 2"
    and "n < n' \<longrightarrow> e820_type (e' n') = E820_RAM"
    and "n' = n \<longrightarrow> e820_hi (e n) = region_lo r"
    and "region_size r \<noteq> 0 \<longrightarrow> e820_size (e' n') \<noteq> 0"
proof -
  let ?a = "e820_addr (e n)" and ?s = "e820_size (e n)"
  let ?st = "region_start r" and ?sz = "region_size r"
  have le: "unat ?a + unat ?s \<le> unat ?st"
    using cur by (simp add: e820_hi_def region_lo_def)
  have rr: "unat ?st + unat ?sz < 2 ^ 64"
    using r by (simp add: region_hi_def)
  have goal: "n \<le> n' \<and> n' \<le> n + 2 \<and> (\<forall>k<n. e' k = e k) \<and> e820_addr (e' n) = e820_addr (e n)
      \<and> e820_type (e' n) = e820_type (e n)
      \<and> unat (e820_size (e n)) \<le> unat (e820_size (e' n))
      \<and> e820_lo (e' n') \<le> region_lo r \<and> e820_hi (e' n') = region_hi r
      \<and> (\<forall>k. n \<le> k \<and> k < n' \<longrightarrow> e820_hi (e' k) = e820_lo (e' (Suc k)) \<and> e820_size (e' k) \<noteq> 0)
      \<and> (n < n' \<longrightarrow> e820_type (e' n') = E820_RAM)
      \<and> (n' = n \<longrightarrow> e820_hi (e n) = region_lo r)
      \<and> (region_size r \<noteq> 0 \<longrightarrow> e820_size (e' n') \<noteq> 0)"
  proof (cases "?a + ?s = ?st")
    case True
    note ar = e820_contiguous_arith [OF le rr True]
    from step True have e': "e' = e(n := (e n)\<lparr>e820_size := ?st - ?a + ?sz\<rparr>)" and n': "n' = n"
      by (auto simp add: e820_add_region_def e820_increase_def)
    have nz: "?sz \<noteq> 0 \<longrightarrow> ?st - ?a + ?sz \<noteq> 0"
      using ar(2) by (metis add_is_0 unat_eq_0)
    show ?thesis
      using ar nz by (auto simp add: e' n' e820_lo_def e820_hi_def region_lo_def region_hi_def)
  next
    case False
    note ar = e820_gap_arith [OF le False]
    show ?thesis
    proof (cases "?s = 0")
      case True
      from step False True
      have e': "e' = (e(n := (e n)\<lparr>e820_size := ?st - ?a\<rparr>))
                      (Suc n := (e (Suc n))\<lparr>e820_addr := ?st, e820_type := E820_RAM,
                                             e820_size := ?sz\<rparr>)"
        and n': "n' = Suc n"
        by (auto simp add: e820_add_region_def e820_finish_region_def e820_pad_region_def
              e820_increase_def Let_def split: if_splits)
      have nz: "?st - ?a \<noteq> 0"
        using ar(1,4) True by (metis add.right_neutral unat_0 zero_less_diff less_numeral_extra(3))
      have "n \<le> n' \<and> n' \<le> n + 2" by (simp add: n')
      moreover have "(\<forall>k<n. e' k = e k)" by (simp add: e')
      moreover have "e820_addr (e' n) = e820_addr (e n)" by (simp add: e')
      moreover have "e820_type (e' n) = e820_type (e n)" by (simp add: e')
      moreover have "unat (e820_size (e n)) \<le> unat (e820_size (e' n))" using True by (simp add: e')
      moreover have "e820_lo (e' n') \<le> region_lo r \<and> e820_hi (e' n') = region_hi r"
         by (simp add: e' n' e820_lo_def e820_hi_def region_lo_def region_hi_def)
      moreover have "(\<forall>k. n \<le> k \<and> k < n' \<longrightarrow> e820_hi (e' k) = e820_lo (e' (Suc k)) \<and> e820_size (e' k) \<noteq> 0)"
      proof (intro allI impI)
        fix k assume "n \<le> k \<and> k < n'"
        then have k: "k = n" by (simp add: n')
        have "e820_hi (e' n) = e820_lo (e' (Suc n))"
          using ar True by (simp add: e' e820_lo_def e820_hi_def)
        moreover have "e820_size (e' n) \<noteq> 0"
          using nz by (simp add: e')
        ultimately show "e820_hi (e' k) = e820_lo (e' (Suc k)) \<and> e820_size (e' k) \<noteq> 0"
          by (simp add: k)
      qed
      moreover have "(n < n' \<longrightarrow> e820_type (e' n') = E820_RAM)" by (simp add: e' n')
      moreover have "(n' = n \<longrightarrow> e820_hi (e n) = region_lo r)" by (simp add: n')
      moreover have "(region_size r \<noteq> 0 \<longrightarrow> e820_size (e' n') \<noteq> 0)" by (simp add: e' n')
      ultimately show ?thesis by blast
    next
      case nonzero: False
      from step False nonzero
      have e': "e' = ((e(Suc n := (e (Suc n))\<lparr>e820_addr := ?a + ?s, e820_type := E820_RESERVED,
                                             e820_size := ?st - (?a + ?s)\<rparr>))
                      (Suc (Suc n) := (e (Suc (Suc n)))\<lparr>e820_addr := ?st, e820_type := E820_RAM,
                                             e820_size := ?sz\<rparr>))"
        and n': "n' = Suc (Suc n)"
        by (auto simp add: e820_add_region_def e820_finish_region_def e820_pad_region_def
              e820_increase_def Let_def split: if_splits)
      have nz: "?st - (?a + ?s) \<noteq> 0"
        using ar(1,3) by (metis unat_0 zero_less_diff less_numeral_extra(3))
      show ?thesis
        using ar nz nonzero
        by (auto simp add: e' n' e820_lo_def e820_hi_def region_lo_def region_hi_def less_Suc_eq)
    qed
  qed
  from goal show "n \<le> n'" by blast
  from goal show "n' \<le> n + 2" by blast
  from goal show "\<forall>k<n. e' k = e k" by blast
  from goal show "e820_addr (e' n) = e820_addr (e n)" by blast
  from goal show "e820_type (e' n) = e820_type (e n)" by blast
  from goal show "unat (e820_size (e n)) \<le> unat (e820_size (e' n))" by blast
  from goal show "e820_lo (e' n') \<le> region_lo r" by blast
  from goal show "e820_hi (e' n') = region_hi r" by blast
  from goal show "\<forall>k. n \<le> k \<and> k < n' \<longrightarrow> e820_hi (e' k) = e820_lo (e' (Suc k)) \<and> e820_size (e' k) \<noteq> 0" by blast
  from goal show "n < n' \<longrightarrow> e820_type (e' n') = E820_RAM" by blast
  from goal show "n' = n \<longrightarrow> e820_hi (e n) = region_lo r" by blast
  from goal show "region_size r \<noteq> 0 \<longrightarrow> e820_size (e' n') \<noteq> 0" by blast
qed

lemma e820_regions_loop_Cons:
  assumes "e820_regions_loop mx (r # rs) (e, n) = Inr (e', n')"
  obtains e1 n1 where "e820_add_region mx r (e, n) = Inr (e1, n1)"
    and "e820_regions_loop mx rs (e1, n1) = Inr (e', n')"
  using assms by (cases "e820_add_region mx r (e, n)") auto

lemma e820_regions_loop_basic:
  assumes "e820_regions_loop mx rs (e, n) = Inr (e', n')"
    and "regions_from (e820_hi (e n)) rs"
  shows "n \<le> n' \<and> (\<forall>k<n. e' k = e k) \<and> e820_addr (e' n) = e820_addr (e n)
      \<and> e820_type (e' n) = e820_type (e n)
      \<and> unat (e820_size (e n)) \<le> unat (e820_size (e' n))
      \<and> (rs \<noteq> [] \<longrightarrow> e820_hi (e' n') = region_hi (last rs))"
  using assms
proof (induction rs arbitrary: e n)
  case Nil
  then show ?case by simp
next
  case (Cons r rs)
  from Cons.prems(1) obtain e1 n1
    where step: "e820_add_region mx r (e, n) = Inr (e1, n1)"
      and rest: "e820_regions_loop mx rs (e1, n1) = Inr (e', n')"
    by (rule e820_regions_loop_Cons)
  from Cons.prems(2) have cur: "e820_hi (e n) \<le> region_lo r" and r: "region_hi r < 2 ^ 64"
    and tl: "regions_from (region_hi r) rs"
    by simp_all
  note eff = e820_add_region_effect [OF step cur r]
  from tl eff(7) have "regions_from (e820_hi (e1 n1)) rs" by simp
  from Cons.IH [OF rest this]
  have ih: "n1 \<le> n'" "\<forall>k<n1. e' k = e1 k" "e820_addr (e' n1) = e820_addr (e1 n1)"
    "e820_type (e' n1) = e820_type (e1 n1)"
    "unat (e820_size (e1 n1)) \<le> unat (e820_size (e' n1))"
    "rs \<noteq> [] \<longrightarrow> e820_hi (e' n') = region_hi (last rs)"
    by simp_all
  have "n \<le> n'" using eff(1) ih(1) by simp
  moreover have "\<forall>k<n. e' k = e k" using eff(1,2) ih(2) by simp
  moreover have "e820_addr (e' n) = e820_addr (e n) \<and> e820_type (e' n) = e820_type (e n)
      \<and> unat (e820_size (e n)) \<le> unat (e820_size (e' n))"
  proof (cases "n = n1")
    case True
    then show ?thesis using eff(3,4,5) ih(3,4,5) by simp
  next
    case False
    with eff(1) have "n < n1" by simp
    with ih(2) have "e' n = e1 n" by simp
    then show ?thesis using eff(3,4,5) by simp
  qed
  moreover have "e820_hi (e' n') = region_hi (last (r # rs))"
  proof (cases "rs = []")
    case True
    with rest have "e' = e1" "n' = n1" by simp_all
    with eff(7) True show ?thesis by simp
  next
    case False
    with ih(6) show ?thesis by simp
  qed
  ultimately show ?case by simp
qed

lemma e820_regions_loop_chain:
  assumes "e820_regions_loop mx rs (e, n) = Inr (e', n')"
    and "regions_from (e820_hi (e n)) rs"
  shows "\<forall>k. n \<le> k \<and> k < n' \<longrightarrow>
           e820_hi (e' k) = e820_lo (e' (Suc k)) \<and> e820_size (e' k) \<noteq> 0"
  using assms
proof (induction rs arbitrary: e n)
  case Nil
  then show ?case by auto
next
  case (Cons r rs)
  from Cons.prems(1) obtain e1 n1
    where step: "e820_add_region mx r (e, n) = Inr (e1, n1)"
      and rest: "e820_regions_loop mx rs (e1, n1) = Inr (e', n')"
    by (rule e820_regions_loop_Cons)
  from Cons.prems(2) have cur: "e820_hi (e n) \<le> region_lo r" and r: "region_hi r < 2 ^ 64"
    and tl: "regions_from (region_hi r) rs"
    by simp_all
  note eff = e820_add_region_effect [OF step cur r]
  from tl eff(7) have tl': "regions_from (e820_hi (e1 n1)) rs" by simp
  note ih = Cons.IH [OF rest tl']
  note basic = e820_regions_loop_basic [OF rest tl']
  show ?case
  proof (intro allI impI)
    fix k assume k: "n \<le> k \<and> k < n'"
    show "e820_hi (e' k) = e820_lo (e' (Suc k)) \<and> e820_size (e' k) \<noteq> 0"
    proof (cases "k < n1")
      case True
      with basic have same: "e' k = e1 k" by simp
      have "e820_lo (e' (Suc k)) = e820_lo (e1 (Suc k))"
      proof (cases "Suc k < n1")
        case True
        with basic show ?thesis by simp
      next
        case False
        with \<open>k < n1\<close> have "Suc k = n1" by simp
        with basic show ?thesis by (simp add: e820_lo_def)
      qed
      with same eff(8) k True show ?thesis by simp
    next
      case False
      with ih k show ?thesis by simp
    qed
  qed
qed

lemma e820_regions_loop_covers_kept:
  assumes loop: "e820_regions_loop mx rs (e, n) = Inr (e', n')"
    and sorted: "regions_from (e820_hi (e n)) rs"
    and cov: "e820_ram_covers e n r0"
  shows "e820_ram_covers e' n' r0"
proof -
  note basic = e820_regions_loop_basic [OF loop sorted]
  from cov obtain k where k: "k \<le> n" "e820_type (e k) = E820_RAM"
      "e820_lo (e k) \<le> region_lo r0" "region_hi r0 \<le> e820_hi (e k)"
    unfolding e820_ram_covers_def by blast
  have "e820_type (e' k) = E820_RAM \<and> e820_lo (e' k) \<le> region_lo r0
      \<and> region_hi r0 \<le> e820_hi (e' k)"
  proof (cases "k < n")
    case True
    with basic k show ?thesis by simp
  next
    case False
    with k(1) have "k = n" by simp
    with basic k show ?thesis by (simp add: e820_lo_def e820_hi_def)
  qed
  moreover have "k \<le> n'" using k(1) basic by simp
  ultimately show ?thesis unfolding e820_ram_covers_def by blast
qed

lemma e820_regions_loop_covers:
  assumes "e820_regions_loop mx rs (e, n) = Inr (e', n')"
    and "regions_from (e820_hi (e n)) rs"
    and "e820_type (e n) = E820_RAM \<or> e820_hi (e n) = 0"
    and "\<forall>r\<in>set rs. 0 < region_lo r"
  shows "\<forall>r\<in>set rs. e820_ram_covers e' n' r"
  using assms
proof (induction rs arbitrary: e n)
  case Nil
  then show ?case by simp
next
  case (Cons r rs)
  from Cons.prems(1) obtain e1 n1
    where step: "e820_add_region mx r (e, n) = Inr (e1, n1)"
      and rest: "e820_regions_loop mx rs (e1, n1) = Inr (e', n')"
    by (rule e820_regions_loop_Cons)
  from Cons.prems(2) have cur: "e820_hi (e n) \<le> region_lo r" and r: "region_hi r < 2 ^ 64"
    and tl: "regions_from (region_hi r) rs"
    by simp_all
  note eff = e820_add_region_effect [OF step cur r]
  from tl eff(7) have tl': "regions_from (e820_hi (e1 n1)) rs" by simp
  from Cons.prems(4) have pos: "0 < region_lo r" and pos': "\<forall>r\<in>set rs. 0 < region_lo r"
    by simp_all
  have ram: "e820_type (e1 n1) = E820_RAM"
  proof (cases "n < n1")
    case True
    with eff(10) show ?thesis by simp
  next
    case False
    with eff(1) have eq: "n1 = n" by simp
    with eff(11) pos have "e820_hi (e n) \<noteq> 0" by simp
    with Cons.prems(3) eff(4) eq show ?thesis by simp
  qed
  have "e820_ram_covers e1 n1 r"
    unfolding e820_ram_covers_def using ram eff(6,7) by auto
  then have "e820_ram_covers e' n' r"
    by (rule e820_regions_loop_covers_kept [OF rest tl'])
  moreover have "\<forall>r\<in>set rs. e820_ram_covers e' n' r"
    using Cons.IH [OF rest tl' _ pos'] ram by simp
  ultimately show ?case by simp
qed

lemma e820_regions_loop_last_nonzero:
  assumes "e820_regions_loop mx rs (e, n) = Inr (e', n')"
    and "regions_from (e820_hi (e n)) rs"
    and "\<forall>r\<in>set rs. region_size r \<noteq> 0"
    and "rs \<noteq> []"
  shows "e820_size (e' n') \<noteq> 0"
  using assms
proof (induction rs arbitrary: e n)
  case Nil
  then show ?case by simp
next
  case (Cons r rs)
  from Cons.prems(1) obtain e1 n1
    where step: "e820_add_region mx r (e, n) = Inr (e1, n1)"
      and rest: "e820_regions_loop mx rs (e1, n1) = Inr (e', n')"
    by (rule e820_regions_loop_Cons)
  from Cons.prems(2) have cur: "e820_hi (e n) \<le> region_lo r" and r: "region_hi r < 2 ^ 64"
    and tl: "regions_from (region_hi r) rs"
    by simp_all
  note eff = e820_add_region_effect [OF step cur r]
  from tl eff(7) have tl': "regions_from (e820_hi (e1 n1)) rs" by simp
  show ?case
  proof (cases "rs = []")
    case True
    with rest have "e' = e1" "n' = n1" by simp_all
    with eff(12) Cons.prems(3) show ?thesis by simp
  next
    case False
    with Cons.IH [OF rest tl'] Cons.prems(3) show ?thesis by simp
  qed
qed

lemma e820_add_region_succeeds:
  assumes "n + 2 < mx"
  shows "\<exists>e1 n1. e820_add_region mx r (e, n) = Inr (e1, n1) \<and> n1 \<le> n + 2"
  using assms
  by (simp add: e820_add_region_def e820_finish_region_def e820_pad_region_def
        e820_increase_def Let_def)

lemma e820_regions_loop_succeeds:
  assumes "n + 2 * length rs < mx"
  shows "\<exists>e' n'. e820_regions_loop mx rs (e, n) = Inr (e', n') \<and> n' \<le> n + 2 * length rs"
  using assms
proof (induction rs arbitrary: e n)
  case Nil
  then show ?case by simp
next
  case (Cons r rs)
  then have "n + 2 < mx" by simp
  from e820_add_region_succeeds [OF this] obtain e1 n1
    where step: "e820_add_region mx r (e, n) = Inr (e1, n1)" and n1: "n1 \<le> n + 2"
    by blast
  with Cons.prems have "n1 + 2 * length rs < mx" by simp
  from Cons.IH [OF this] obtain e' n'
    where "e820_regions_loop mx rs (e1, n1) = Inr (e', n')" "n' \<le> n1 + 2 * length rs"
    by blast
  with step n1 show ?case by simp
qed


subsection \<open>The loop over the regions\<close>

lemma e820_entry_nonempty_iff:
  "e820_entry_nonempty x \<longleftrightarrow> e820_size x \<noteq> 0 \<and> e820_hi x < 2 ^ 64"
proof
  assume ne: "e820_entry_nonempty x"
  then have lt: "e820_addr x < e820_addr x + e820_size x"
    by (simp add: e820_entry_nonempty_def)
  then have "e820_addr x \<le> e820_addr x + e820_size x" by simp
  then have "unat (e820_addr x) + unat (e820_size x) < 2 ^ 64"
    using no_olen_add_nat [of "e820_addr x" "e820_size x"] by simp
  moreover from lt have "e820_size x \<noteq> 0" by auto
  ultimately show "e820_size x \<noteq> 0 \<and> e820_hi x < 2 ^ 64"
    by (simp add: e820_hi_def)
next
  assume a: "e820_size x \<noteq> 0 \<and> e820_hi x < 2 ^ 64"
  then have "unat (e820_addr x + e820_size x) = unat (e820_addr x) + unat (e820_size x)"
    by (intro u64_add_nowrap) (simp add: e820_hi_def)
  moreover from a have "0 < unat (e820_size x)"
    by (simp add: unat_gt_0)
  ultimately show "e820_entry_nonempty x"
    by (simp add: e820_entry_nonempty_def word_less_nat_alt)
qed

lemma e820_entry_nonempty_lo_hi:
  "e820_entry_nonempty x \<Longrightarrow> e820_lo x < e820_hi x"
  by (simp add: e820_entry_nonempty_iff e820_lo_def e820_hi_def unat_gt_0)

lemma regions_from_sorted:
  assumes "ram_regions_sorted rs" and "rs \<noteq> [] \<longrightarrow> c \<le> region_lo (hd rs)"
  shows "regions_from c rs"
  using assms
proof (induction rs arbitrary: c)
  case Nil
  then show ?case by simp
next
  case (Cons r rs)
  from Cons.prems(1) have tl: "ram_regions_sorted rs"
    and nxt: "rs \<noteq> [] \<longrightarrow> region_hi r \<le> region_lo (hd rs)"
    and r: "region_hi r < 2 ^ 64"
    by (auto simp add: ram_regions_sorted_def)
  from Cons.IH [OF tl nxt] Cons.prems(2) r show ?case by simp
qed

lemma regions_sorted_positive:
  assumes "ram_regions_sorted rs" and "rs \<noteq> []" and "0 < region_lo (hd rs)"
  shows "\<forall>r\<in>set rs. 0 < region_lo r"
proof -
  obtain r0 rs' where rs: "rs = r0 # rs'" using assms(2) by (cases rs) auto
  have "region_lo r0 \<le> region_hi r0" by (simp add: region_lo_def region_hi_def)
  with assms(1,3) rs show ?thesis
    by (fastforce simp add: ram_regions_sorted_def)
qed

subsection \<open>Tilings\<close>

lemma e820_tiles_upt:
  assumes "\<forall>k. i \<le> k \<and> k < n \<longrightarrow> e820_hi (e k) = e820_lo (e (Suc k))"
    and "\<forall>k. i \<le> k \<and> k \<le> n \<longrightarrow> e820_lo (e k) < e820_hi (e k)"
    and "i \<le> n"
  shows "e820_tiles (e820_lo (e i)) (map e [i..<Suc n]) (e820_hi (e n))"
  using assms
proof (induction "n - i" arbitrary: i)
  case 0
  then have "i = n" by simp
  with "0.prems"(2) show ?case by simp
next
  case (Suc d)
  then have lt: "i < n" and d: "d = n - Suc i" by simp_all
  have tl: "e820_tiles (e820_lo (e (Suc i))) (map e [Suc i..<Suc n]) (e820_hi (e n))"
    using Suc.hyps(1) [OF d] Suc.prems lt by simp
  have split: "[i..<Suc n] = i # [Suc i..<Suc n]"
    using lt by (simp add: upt_conv_Cons del: upt_Suc)
  have link: "e820_hi (e i) = e820_lo (e (Suc i))"
    using Suc.prems(1) lt by simp
  have ne: "e820_lo (e i) < e820_hi (e i)"
    using Suc.prems(2) lt by simp
  show ?case
    unfolding split using tl link ne by simp
qed

lemma e820_tiles_props:
  assumes "e820_tiles lo es hi"
  shows "sorted_wrt (\<lambda>x y. e820_hi x \<le> e820_lo y) es"
    and "\<forall>x\<in>set es. lo \<le> e820_lo x \<and> e820_lo x < e820_hi x \<and> e820_hi x \<le> hi"
    and "(\<Union>x\<in>set es. {e820_lo x..<e820_hi x}) = {lo..<hi}"
    and "lo \<le> hi"
  using assms
proof (induction es arbitrary: lo)
  case Nil
  { case 1 then show ?case by simp }
  { case 2 then show ?case by simp }
  { case 3 then show ?case by simp }
  { case 4 then show ?case by simp }
next
  case (Cons x es)
  { case 1
    with Cons.IH(1,2) [of "e820_hi x"] show ?case by fastforce }
  { case 2
    with Cons.IH(2,4) [of "e820_hi x"] show ?case by fastforce }
  { case 3
    with Cons.IH(3,4) [of "e820_hi x"] show ?case by auto }
  { case 4
    with Cons.IH(4) [of "e820_hi x"] show ?case by simp }
qed

subsection \<open>The whole function\<close>

lemma make_guest_e820_map_Inr:
  assumes "make_guest_e820_map mx e820 rs = Inr m"
  obtains e1 n where "rs \<noteq> []"
    and "e820_regions_loop mx rs
           (e820(0 := \<lparr>e820_addr = 0, e820_size = 0, e820_type = E820_RESERVED\<rparr>), 0) = Inr (e1, n)"
    and "n + 1 < mx"
    and "m = (e1(n + 1 := \<lparr>e820_addr = e820_addr (e1 n) + e820_size (e1 n),
                           e820_size = 0x100000000 - (e820_addr (e1 n) + e820_size (e1 n)),
                           e820_type = E820_RESERVED\<rparr>), n + 2)"
    and "\<forall>k\<le>n. e820_entry_nonempty (e1 k)"
    and "e820_entry_nonempty
           \<lparr>e820_addr = e820_addr (e1 n) + e820_size (e1 n),
            e820_size = 0x100000000 - (e820_addr (e1 n) + e820_size (e1 n)),
            e820_type = E820_RESERVED\<rparr>"
proof -
  from assms have ne: "rs \<noteq> []"
    by (auto simp add: make_guest_e820_map_def Let_def split: if_splits)
  from assms ne obtain e1 n where loop: "e820_regions_loop mx rs
      (e820(0 := \<lparr>e820_addr = 0, e820_size = 0, e820_type = E820_RESERVED\<rparr>), 0) = Inr (e1, n)"
    by (auto simp add: make_guest_e820_map_def Let_def split: sum.splits)
  let ?fin = "\<lparr>e820_addr = e820_addr (e1 n) + e820_size (e1 n),
               e820_size = 0x100000000 - (e820_addr (e1 n) + e820_size (e1 n)),
               e820_type = E820_RESERVED\<rparr>"
  from assms ne loop have mx: "n + 1 < mx"
    and each: "\<forall>k<n + 2. e820_entry_nonempty ((e1(n + 1 := ?fin)) k)"
    and m: "m = (e1(n + 1 := ?fin), n + 2)"
    by (auto simp add: make_guest_e820_map_def Let_def list_all_iff
        simp del: upt_Suc fun_upd_apply split: if_splits)
  have "\<forall>k\<le>n. e820_entry_nonempty (e1 k)"
  proof (intro allI impI)
    fix k assume "k \<le> n"
    with each [rule_format, of k] have "e820_entry_nonempty ((e1(n + 1 := ?fin)) k)" by simp
    with \<open>k \<le> n\<close> show "e820_entry_nonempty (e1 k)" by simp
  qed
  moreover from each [rule_format, of "n + 1"] have "e820_entry_nonempty ?fin" by simp
  ultimately show thesis using that ne loop mx m by blast
qed

lemma e820_final_entry:
  fixes a :: u64
  assumes "e820_entry_nonempty \<lparr>e820_addr = a, e820_size = 0x100000000 - a, e820_type = t\<rparr>"
  shows "e820_hi \<lparr>e820_addr = a, e820_size = 0x100000000 - a, e820_type = t\<rparr> = 2 ^ 32"
proof -
  from assms have "a < 0x100000000"
    by (simp add: e820_entry_nonempty_def)
  then have le: "unat a \<le> unat (0x100000000 :: u64)"
    by (simp add: word_less_nat_alt)
  then have "unat (0x100000000 - a) = unat (0x100000000 :: u64) - unat a"
    by (rule u64_sub_nowrap)
  with le show ?thesis by (simp add: e820_hi_def)
qed

lemma e820_add_region_Inl:
  "e820_add_region mx r s = Inl f \<Longrightarrow> f = Assert_E820MAX"
  by (cases s)
    (auto simp add: e820_add_region_def e820_finish_region_def e820_pad_region_def Let_def
      split: if_splits sum.splits)

lemma e820_regions_loop_Inl:
  "e820_regions_loop mx rs s = Inl f \<Longrightarrow> f = Assert_E820MAX"
proof (induction rs arbitrary: s)
  case Nil
  then show ?case by simp
next
  case (Cons r rs)
  then show ?case
    by (cases "e820_add_region mx r s") (auto dest: e820_add_region_Inl)
qed

lemma e820_regions_loop_nonempty:
  assumes loop: "e820_regions_loop mx rs
      (e820(0 := \<lparr>e820_addr = 0, e820_size = 0, e820_type = E820_RESERVED\<rparr>), 0) = Inr (e1, n)"
    and ne: "rs \<noteq> []"
    and sorted: "ram_regions_sorted rs"
    and sizes: "\<forall>r\<in>set rs. region_size r \<noteq> 0"
    and top: "region_hi (last rs) < 2 ^ 32"
  shows "list_all (\<lambda>i. e820_entry_nonempty
           ((e1(n + 1 := \<lparr>e820_addr = e820_addr (e1 n) + e820_size (e1 n),
                           e820_size = 0x100000000 - (e820_addr (e1 n) + e820_size (e1 n)),
                           e820_type = E820_RESERVED\<rparr>)) i)) [0..<n + 2]"
proof -
  let ?e0 = "e820(0 := \<lparr>e820_addr = 0, e820_size = 0, e820_type = E820_RESERVED\<rparr>)"
  let ?a = "e820_addr (e1 n) + e820_size (e1 n)"
  let ?fin = "\<lparr>e820_addr = ?a, e820_size = 0x100000000 - ?a, e820_type = E820_RESERVED\<rparr>"
  have start: "e820_hi (?e0 0) = 0" by (simp add: e820_hi_def)
  have from0: "regions_from (e820_hi (?e0 0)) rs"
    using regions_from_sorted [OF sorted, of 0] start by simp
  note basic = e820_regions_loop_basic [OF loop from0]
  note chain = e820_regions_loop_chain [OF loop from0]
  from basic ne top have hi_n: "e820_hi (e1 n) < 2 ^ 32" by simp
  have cur: "e820_entry_nonempty (e1 n)"
    using e820_regions_loop_last_nonzero [OF loop from0 sizes ne] hi_n
    by (simp add: e820_entry_nonempty_iff)
  have earlier: "e820_entry_nonempty (e1 k)" if "k < n" for k
  proof -
    from chain that have "e820_hi (e1 k) = e820_lo (e1 (Suc k))" and "e820_size (e1 k) \<noteq> 0"
      by simp_all
    moreover have "e820_lo (e1 (Suc k)) < 2 ^ 64"
      unfolding e820_lo_def using unsigned_less [of "e820_addr (e1 (Suc k))", where 'a = nat]
      by simp
    ultimately show ?thesis by (simp add: e820_entry_nonempty_iff)
  qed
  have a: "unat ?a = e820_hi (e1 n)"
    using hi_n by (simp add: e820_hi_def u64_add_nowrap)
  with hi_n have lt: "unat ?a < unat (0x100000000 :: u64)" by simp
  then have "?a < 0x100000000"
    by (simp only: word_less_nat_alt)
  then have fin: "e820_entry_nonempty ?fin"
    by (simp add: e820_entry_nonempty_def)
  have "e820_entry_nonempty ((e1(n + 1 := ?fin)) i)" if "i < n + 2" for i
  proof -
    from that consider "i < n" | "i = n" | "i = n + 1" by linarith
    then show ?thesis
      using earlier cur fin by cases simp_all
  qed
  then show ?thesis
    by (simp add: list_all_iff del: upt_Suc fun_upd_apply)
qed

text \<open>Evaluation on concrete region lists.\<close>

lemmas e820_eval = make_guest_e820_map_def e820_add_region_def e820_finish_region_def
  e820_pad_region_def e820_increase_def e820_entry_nonempty_def e820_zeroed_def Let_def

lemma e820_example_run:
  "make_guest_e820_map 128 e820_zeroed [\<lparr>region_start = 0x100000, region_size = 0x100000\<rparr>] =
     Inr (e820_zeroed
           (0 := \<lparr>e820_addr = 0, e820_size = 0x100000, e820_type = E820_RESERVED\<rparr>,
            1 := \<lparr>e820_addr = 0x100000, e820_size = 0x100000, e820_type = E820_RAM\<rparr>,
            2 := \<lparr>e820_addr = 0x200000, e820_size = 0xFFE00000, e820_type = E820_RESERVED\<rparr>),
          3)"
  by (simp add: e820_eval fun_eq_iff)

text \<open>
  Inputs on which an assertion stops the function: a region of size zero, and more
  regions than \<open>E820MAX\<close> leaves room for.
\<close>

lemma e820_zero_size_region_aborts:
  "make_guest_e820_map 128 e820_zeroed [\<lparr>region_start = 0x1000, region_size = 0\<rparr>] =
     Inl Assert_entry_length"
  by (simp add: e820_eval upt_rec)

lemma e820_too_many_regions_aborts:
  "make_guest_e820_map 4 e820_zeroed
     [\<lparr>region_start = 0x1000, region_size = 0x1000\<rparr>,
      \<lparr>region_start = 0x3000, region_size = 0x1000\<rparr>] = Inl Assert_E820MAX"
  by (simp add: e820_eval)

text \<open>
  A region that wraps around the end of the address space can leave a map that passes
  every assertion and does not cover it; \<open>ram_regions_sorted\<close> excludes such lists.
\<close>

lemma e820_wrapping_region_uncovered:
  "map_sum id e820_emitted
     (make_guest_e820_map 128 e820_zeroed
        [\<lparr>region_start = 1, region_size = 0xFFFFFFFFFFFFFFFE\<rparr>,
         \<lparr>region_start = 0xFFFFFFFFFFFFFFFF, region_size = 0x1001\<rparr>]) =
   Inr [\<lparr>e820_addr = 0, e820_size = 1, e820_type = E820_RESERVED\<rparr>,
        \<lparr>e820_addr = 1, e820_size = 0xFFF, e820_type = E820_RAM\<rparr>,
        \<lparr>e820_addr = 0x1000, e820_size = 0xFFFFF000, e820_type = E820_RESERVED\<rparr>]"
  by (simp add: e820_eval e820_emitted_def upt_rec)

subsection \<open>Claims about the E820 map\<close>

text \<open>
  Claim C1, as amended. Let the RAM regions be sorted by start address, each ending at or
  before the start of the next and none wrapping around the address space, and let the
  first region not start at address 0. Whenever \<^verbatim>\<open>make_guest_e820_map\<close> returns a map
  (the list is then non-empty and no assertion failed), its entries are sorted by address
  and do not overlap, they tile \<open>[0, 2^32)\<close> exactly with no gap, and every RAM region
  lies inside an entry of type \<open>E820_RAM\<close>.
\<close>

theorem make_guest_e820_map_covers:
  assumes run: "make_guest_e820_map mx e820 rs = Inr m"
    and sorted: "ram_regions_sorted rs"
    and first: "region_start (hd rs) \<noteq> 0"
  shows "sorted_wrt (\<lambda>x y. e820_lo x < e820_lo y) (e820_emitted m) \<and>
         sorted_wrt (\<lambda>x y. e820_hi x \<le> e820_lo y) (e820_emitted m) \<and>
         e820_tiles 0 (e820_emitted m) (2 ^ 32) \<and>
         (\<Union>x\<in>set (e820_emitted m). {e820_lo x..<e820_hi x}) = {0..<2 ^ 32} \<and>
         (\<forall>r\<in>set rs. \<exists>x\<in>set (e820_emitted m).
            e820_type x = E820_RAM \<and> e820_lo x \<le> region_lo r \<and> region_hi r \<le> e820_hi x)"
proof -
  let ?e0 = "e820(0 := \<lparr>e820_addr = 0, e820_size = 0, e820_type = E820_RESERVED\<rparr>)"
  from run obtain e1 n where ne: "rs \<noteq> []"
    and loop: "e820_regions_loop mx rs (?e0, 0) = Inr (e1, n)"
    and m: "m = (e1(n + 1 := \<lparr>e820_addr = e820_addr (e1 n) + e820_size (e1 n),
                           e820_size = 0x100000000 - (e820_addr (e1 n) + e820_size (e1 n)),
                           e820_type = E820_RESERVED\<rparr>), n + 2)"
    and asserted: "\<forall>k\<le>n. e820_entry_nonempty (e1 k)"
    and asserted_fin: "e820_entry_nonempty
           \<lparr>e820_addr = e820_addr (e1 n) + e820_size (e1 n),
            e820_size = 0x100000000 - (e820_addr (e1 n) + e820_size (e1 n)),
            e820_type = E820_RESERVED\<rparr>"
    by (rule make_guest_e820_map_Inr)
  let ?a = "e820_addr (e1 n) + e820_size (e1 n)"
  let ?fin = "\<lparr>e820_addr = ?a, e820_size = 0x100000000 - ?a, e820_type = E820_RESERVED\<rparr>"
  let ?e2 = "e1(n + 1 := ?fin)"
  have start: "e820_hi (?e0 0) = 0" by (simp add: e820_hi_def)
  have from0: "regions_from (e820_hi (?e0 0)) rs"
    using regions_from_sorted [OF sorted, of 0] start by simp
  note basic = e820_regions_loop_basic [OF loop from0]
  note chain = e820_regions_loop_chain [OF loop from0]
  have lo0: "e820_lo (e1 0) = 0"
    using basic by (simp add: e820_lo_def)
  have "region_hi (last rs) < 2 ^ 64"
    using sorted ne by (simp add: ram_regions_sorted_def list_all_iff)
  with basic ne have hi_n: "e820_hi (e1 n) < 2 ^ 64" by simp
  then have lo_fin: "e820_lo ?fin = e820_hi (e1 n)"
    by (simp add: e820_lo_def e820_hi_def u64_add_nowrap)
  have links: "\<forall>k. 0 \<le> k \<and> k < n + 1 \<longrightarrow> e820_hi (?e2 k) = e820_lo (?e2 (Suc k))"
  proof (intro allI impI)
    fix k assume "0 \<le> k \<and> k < n + 1"
    then consider "k < n" | "k = n" by linarith
    then show "e820_hi (?e2 k) = e820_lo (?e2 (Suc k))"
    proof cases
      case 1
      with chain show ?thesis by simp
    next
      case 2
      with lo_fin show ?thesis by simp
    qed
  qed
  have nonempty: "\<forall>k. 0 \<le> k \<and> k \<le> n + 1 \<longrightarrow> e820_lo (?e2 k) < e820_hi (?e2 k)"
  proof (intro allI impI)
    fix k assume "0 \<le> k \<and> k \<le> n + 1"
    then consider "k \<le> n" | "k = n + 1" by linarith
    then have "e820_entry_nonempty (?e2 k)"
    proof cases
      case 1
      with asserted show ?thesis by simp
    next
      case 2
      with asserted_fin show ?thesis by simp
    qed
    then show "e820_lo (?e2 k) < e820_hi (?e2 k)"
      by (rule e820_entry_nonempty_lo_hi)
  qed
  have hi_fin: "e820_hi (?e2 (n + 1)) = 2 ^ 32"
    using e820_final_entry [OF asserted_fin] by simp
  have emitted: "e820_emitted m = map ?e2 [0..<Suc (n + 1)]"
    by (simp add: e820_emitted_def m)
  have "e820_tiles (e820_lo (?e2 0)) (map ?e2 [0..<Suc (n + 1)]) (e820_hi (?e2 (n + 1)))"
    by (rule e820_tiles_upt [OF links nonempty]) simp
  then have tiles: "e820_tiles 0 (e820_emitted m) (2 ^ 32)"
    using lo0 hi_fin emitted by simp
  note props = e820_tiles_props [OF tiles]
  have strict: "sorted_wrt (\<lambda>x y. e820_lo x < e820_lo y) (e820_emitted m)"
    using props(1,2) by (fastforce intro: sorted_wrt_mono_rel [rotated])
  have "0 < region_lo (hd rs)"
    using first by (simp add: region_lo_def unat_gt_0)
  then have pos: "\<forall>r\<in>set rs. 0 < region_lo r"
    by (rule regions_sorted_positive [OF sorted ne])
  have cov: "\<forall>r\<in>set rs. e820_ram_covers e1 n r"
    using e820_regions_loop_covers [OF loop from0 _ pos] start by simp
  have ram: "\<forall>r\<in>set rs. \<exists>x\<in>set (e820_emitted m).
      e820_type x = E820_RAM \<and> e820_lo x \<le> region_lo r \<and> region_hi r \<le> e820_hi x"
  proof
    fix r assume "r \<in> set rs"
    with cov obtain k where k: "k \<le> n" "e820_type (e1 k) = E820_RAM"
        "e820_lo (e1 k) \<le> region_lo r" "region_hi r \<le> e820_hi (e1 k)"
      unfolding e820_ram_covers_def by blast
    then have "?e2 k = e1 k" by simp
    moreover have "?e2 k \<in> set (e820_emitted m)"
      unfolding emitted using k(1) by (simp del: upt_Suc)
    ultimately show "\<exists>x\<in>set (e820_emitted m).
        e820_type x = E820_RAM \<and> e820_lo x \<le> region_lo r \<and> region_hi r \<le> e820_hi x"
      using k by metis
  qed
  from strict props(1) tiles props(3) ram show ?thesis by blast
qed

theorem make_guest_e820_map_covers_witness:
  "ram_regions_sorted [\<lparr>region_start = 0x100000, region_size = 0x100000\<rparr>] \<and>
   region_start (hd [\<lparr>region_start = 0x100000, region_size = 0x100000\<rparr>]) \<noteq> 0 \<and>
   e820_tiles 0 (e820_emitted (e820_zeroed
           (0 := \<lparr>e820_addr = 0, e820_size = 0x100000, e820_type = E820_RESERVED\<rparr>,
            1 := \<lparr>e820_addr = 0x100000, e820_size = 0x100000, e820_type = E820_RAM\<rparr>,
            2 := \<lparr>e820_addr = 0x200000, e820_size = 0xFFE00000, e820_type = E820_RESERVED\<rparr>),
          3)) (2 ^ 32)"
  using make_guest_e820_map_covers [OF e820_example_run]
  by (simp add: ram_regions_sorted_def region_hi_def region_lo_def)

text \<open>
  Claim C1 as stated fails on two inputs. When the first RAM region starts at address 0
  it is merged into the initial reserved entry, and the map that is returned has no
  entry of type \<open>E820_RAM\<close> at all. When a region lies at or above 4 GiB no map is
  returned: the final entry would have to end at \<open>2^32\<close>, and the assertion on the
  entry lengths stops the function.
\<close>

theorem make_guest_e820_map_covers_counterexample:
  "ram_regions_sorted [\<lparr>region_start = 0, region_size = 0x1000\<rparr>] \<and>
   map_sum id e820_emitted
     (make_guest_e820_map 128 e820_zeroed [\<lparr>region_start = 0, region_size = 0x1000\<rparr>]) =
   Inr [\<lparr>e820_addr = 0, e820_size = 0x1000, e820_type = E820_RESERVED\<rparr>,
        \<lparr>e820_addr = 0x1000, e820_size = 0xFFFFF000, e820_type = E820_RESERVED\<rparr>] \<and>
   E820_RESERVED \<noteq> E820_RAM \<and>
   ram_regions_sorted [\<lparr>region_start = 0x100000000, region_size = 0x1000\<rparr>] \<and>
   make_guest_e820_map 128 e820_zeroed [\<lparr>region_start = 0x100000000, region_size = 0x1000\<rparr>] =
     Inl Assert_entry_length"
  by (simp add: e820_eval e820_emitted_def upt_rec ram_regions_sorted_def region_hi_def
      E820_RESERVED_def E820_RAM_def)

text \<open>
  Claim C5, as amended. Let the RAM regions be non-empty in number, sorted and
  non-overlapping as above, each of non-zero size, and let the last one end strictly
  below \<open>2^32\<close>. Then the assertion on the entry lengths never fails; and when
  \<open>E820MAX\<close> leaves room for two entries per region and two more, the function returns
  a map, every entry of which (the final reserved one included) has
  \<open>addr < addr + size\<close>.
\<close>

theorem make_guest_e820_map_entries_nonempty:
  assumes ne: "rs \<noteq> []"
    and sorted: "ram_regions_sorted rs"
    and sizes: "\<forall>r\<in>set rs. region_size r \<noteq> 0"
    and top: "region_hi (last rs) < 2 ^ 32"
  shows "make_guest_e820_map mx e820 rs \<noteq> Inl Assert_entry_length \<and>
         (2 * length rs + 2 \<le> mx \<longrightarrow>
            (\<exists>m. make_guest_e820_map mx e820 rs = Inr m \<and>
                 list_all e820_entry_nonempty (e820_emitted m)))"
proof -
  let ?e0 = "e820(0 := \<lparr>e820_addr = 0, e820_size = 0, e820_type = E820_RESERVED\<rparr>)"
  have no_abort: "make_guest_e820_map mx e820 rs \<noteq> Inl Assert_entry_length"
  proof (cases "e820_regions_loop mx rs (?e0, 0)")
    case (Inl f)
    then have "f = Assert_E820MAX" by (rule e820_regions_loop_Inl)
    with Inl ne show ?thesis
      by (simp add: make_guest_e820_map_def)
  next
    case (Inr s)
    obtain e1 n where s: "s = (e1, n)" by (cases s)
    from e820_regions_loop_nonempty [OF Inr [unfolded s] ne sorted sizes top] Inr ne
    show ?thesis
      by (simp add: make_guest_e820_map_def Let_def s del: upt_Suc fun_upd_apply)
  qed
  have "\<exists>m. make_guest_e820_map mx e820 rs = Inr m \<and>
            list_all e820_entry_nonempty (e820_emitted m)"
    if bound: "2 * length rs + 2 \<le> mx"
  proof -
    from bound have "0 + 2 * length rs < mx" by simp
    from e820_regions_loop_succeeds [OF this, of ?e0] obtain e1 n
      where loop: "e820_regions_loop mx rs (?e0, 0) = Inr (e1, n)" and n: "n \<le> 2 * length rs"
      by auto
    note all = e820_regions_loop_nonempty [OF loop ne sorted sizes top]
    from n bound have "n + 1 < mx" by simp
    with loop ne all show ?thesis
      by (simp add: make_guest_e820_map_def Let_def e820_emitted_def list_all_iff
          del: upt_Suc fun_upd_apply)
  qed
  with no_abort show ?thesis by blast
qed

theorem make_guest_e820_map_entries_nonempty_witness:
  "make_guest_e820_map 128 e820_zeroed [\<lparr>region_start = 0x100000, region_size = 0x100000\<rparr>] \<noteq> Inl Assert_entry_length \<and>
   list_all e820_entry_nonempty (e820_emitted (e820_zeroed
           (0 := \<lparr>e820_addr = 0, e820_size = 0x100000, e820_type = E820_RESERVED\<rparr>,
            1 := \<lparr>e820_addr = 0x100000, e820_size = 0x100000, e820_type = E820_RAM\<rparr>,
            2 := \<lparr>e820_addr = 0x200000, e820_size = 0xFFE00000, e820_type = E820_RESERVED\<rparr>),
          3))"
  using make_guest_e820_map_entries_nonempty [of "[\<lparr>region_start = 0x100000, region_size = 0x100000\<rparr>]" 128 e820_zeroed] e820_example_run
  by (simp add: ram_regions_sorted_def region_hi_def region_lo_def)

text \<open>
  Claim C5 as stated fails for a region that ends exactly at \<open>2^32\<close>: it lies within
  \<open>[0, 2^32)\<close>, the final reserved entry is then empty, and the assertion fails.
\<close>

theorem make_guest_e820_map_entries_nonempty_counterexample:
  "ram_regions_sorted [\<lparr>region_start = 0x1000, region_size = 0xFFFFF000\<rparr>] \<and>
   region_hi \<lparr>region_start = 0x1000, region_size = 0xFFFFF000\<rparr> \<le> 2 ^ 32 \<and>
   make_guest_e820_map 128 e820_zeroed [\<lparr>region_start = 0x1000, region_size = 0xFFFFF000\<rparr>] =
     Inl Assert_entry_length"
  by (simp add: e820_eval upt_rec ram_regions_sorted_def region_hi_def)


section \<open>Properties of the initial vCPU state\<close>

lemmas vcpu_eval = vmm_init_guest_thread_state_def vm_set_thread_context_reg_def
  vm_set_vmcs_field_def Let_def

lemma u32_cast_unat:
  "unat (ucast (ucast (a :: uintptr_t) :: u32) :: uintptr_t) = unat a mod 2 ^ 32"
  by (simp add: unsigned_ucast_eq take_bit_eq_mod unat_mod)

lemma u32_cast_id:
  fixes a :: uintptr_t
  assumes "unat a < 2 ^ 32"
  shows "ucast (ucast a :: u32) = a"
proof -
  have "unat (ucast (ucast a :: u32) :: uintptr_t) = unat a"
    using assms by (simp add: u32_cast_unat)
  then show ?thesis by (simp add: word_unat_eq_iff)
qed

text \<open>
  Claim C8, as amended. For every vCPU and entry address,
  \<^verbatim>\<open>vmm_init_guest_thread_state\<close> sets EAX, EBX, ECX and EDX to zero, sets ESI to the
  boot-parameters address recorded on the VM (the field that \<^verbatim>\<open>make_guest_boot_info\<close>
  assigns), and sets the guest RIP field to the low 32 bits of the entry address, which
  is the entry address itself whenever that is below \<open>2^32\<close>.
\<close>

theorem vmm_init_guest_thread_state_registers:
  "vcpu_context (vmm_init_guest_thread_state vcpu guest_entry_addr) VCPU_CONTEXT_EAX = 0 \<and>
   vcpu_context (vmm_init_guest_thread_state vcpu guest_entry_addr) VCPU_CONTEXT_EBX = 0 \<and>
   vcpu_context (vmm_init_guest_thread_state vcpu guest_entry_addr) VCPU_CONTEXT_ECX = 0 \<and>
   vcpu_context (vmm_init_guest_thread_state vcpu guest_entry_addr) VCPU_CONTEXT_EDX = 0 \<and>
   vcpu_context (vmm_init_guest_thread_state vcpu guest_entry_addr) VCPU_CONTEXT_ESI =
     guest_boot_info (vcpu_vm vcpu) \<and>
   vcpu_vmcs (vmm_init_guest_thread_state vcpu guest_entry_addr) VMX_GUEST_RIP =
     ucast (ucast guest_entry_addr :: u32) \<and>
   (unat guest_entry_addr < 2 ^ 32 \<longrightarrow>
      vcpu_vmcs (vmm_init_guest_thread_state vcpu guest_entry_addr) VMX_GUEST_RIP =
        guest_entry_addr)"
  by (simp add: vcpu_eval u32_cast_id)

theorem vmm_init_guest_thread_state_registers_witness:
  "vcpu_vmcs (vmm_init_guest_thread_state
      \<lparr>vcpu_context = (\<lambda>r. 0xDEAD), vcpu_vmcs = (\<lambda>f. 0xDEAD),
       vcpu_vm = \<lparr>guest_boot_info = 0x7000, ram_regions = [], vm_rest = ()\<rparr>\<rparr> 0x100000)
     VMX_GUEST_RIP = 0x100000 \<and>
   vcpu_context (vmm_init_guest_thread_state
      \<lparr>vcpu_context = (\<lambda>r. 0xDEAD), vcpu_vmcs = (\<lambda>f. 0xDEAD),
       vcpu_vm = \<lparr>guest_boot_info = 0x7000, ram_regions = [], vm_rest = ()\<rparr>\<rparr> 0x100000)
     VCPU_CONTEXT_ESI = 0x7000"
  using vmm_init_guest_thread_state_registers
    [of "\<lparr>vcpu_context = (\<lambda>r. 0xDEAD), vcpu_vmcs = (\<lambda>f. 0xDEAD),
         vcpu_vm = \<lparr>guest_boot_info = 0x7000, ram_regions = [], vm_rest = ()\<rparr>\<rparr>" "0x100000"]
  by simp

text \<open>
  Claim C8 as stated fails for an entry address of \<open>2^32\<close> or more: the cast to
  \<^verbatim>\<open>unsigned int\<close> drops the high bits, and the RIP field is not the entry address.
\<close>

theorem vmm_init_guest_thread_state_rip_counterexample:
  "vcpu_vmcs (vmm_init_guest_thread_state
      \<lparr>vcpu_context = (\<lambda>r. 0xDEAD), vcpu_vmcs = (\<lambda>f. 0xDEAD),
       vcpu_vm = \<lparr>guest_boot_info = 0x7000, ram_regions = [], vm_rest = ()\<rparr>\<rparr> 0x100000000)
     VMX_GUEST_RIP = 0 \<and>
   (0x100000000 :: uintptr_t) \<noteq> 0"
  by (simp add: vcpu_eval)

text \<open>
  Claim C10. \<^verbatim>\<open>vmm_init_guest_thread_state\<close> truncates the entry address to 32 bits:
  for every \<^verbatim>\<open>guest_entry_addr\<close>, the value written to the \<^verbatim>\<open>VMX_GUEST_RIP\<close>
  field is \<^verbatim>\<open>guest_entry_addr\<close> modulo \<open>2^32\<close>.
\<close>

theorem vmm_init_guest_thread_state_rip_truncated:
  "unat (vcpu_vmcs (vmm_init_guest_thread_state vcpu guest_entry_addr) VMX_GUEST_RIP) =
     unat guest_entry_addr mod 2 ^ 32"
  by (simp add: vcpu_eval u32_cast_unat)


section \<open>Properties of the screen information\<close>

lemma screen_info_memset0_all_zero:
  "screen_info_all_zero (screen_info_memset0 info)"
  by (simp add: screen_info_all_zero_def screen_info_memset0_def list_all_iff)

lemma screen_info_from_vbe_not_zero:
  "\<not> screen_info_all_zero (screen_info_from_vbe vbeinfo base fbuffer_size info)"
  by (simp add: screen_info_all_zero_def screen_info_from_vbe_def Let_def)

lemma make_guest_screen_info_cases:
  "snd (make_guest_screen_info p vm info) =
     (let vbeinfo = snd (simple_get_extended_bootinfo p vm);
          pm = map_vbe_pm_interface p vm vbeinfo;
          fb = map_vesa_fbuffer p (snd pm) vbeinfo 0
      in if config_VMM_VESA_FRAMEBUFFER p \<and> fst (simple_get_extended_bootinfo p vm) \<noteq> - 1 \<and>
            fst pm = 0 \<and> fst (fst fb) \<noteq> 0
         then screen_info_from_vbe vbeinfo (fst (fst fb)) (snd (fst fb)) info
         else screen_info_memset0 info)"
  by (simp add: make_guest_screen_info_def Let_def split: prod.splits)

lemma map_vbe_pm_interface_fails:
  assumes "0xc000 < vbe_pm_base vbeinfo"
    and "vm_reserve_memory_at p vm (vbe_pm_aligned vbeinfo) (vbe_pm_size vbeinfo) = (rsv, vm1)"
    and "rsv = None \<or> (\<exists>r. rsv = Some r \<and> fst (map_ut_alloc_reservation p vm1 r) \<noteq> 0)"
  shows "fst (map_vbe_pm_interface p vm vbeinfo) \<noteq> 0"
  using assms by (auto simp add: map_vbe_pm_interface_def)

lemma map_vesa_fbuffer_base:
  assumes "vm_reserve_anon_memory p vm
             (ucast (vmm_plat_vesa_fbuffer_size (vbeModeInfoBlock vbeinfo))) base =
           ((rsv, base1), vm1)"
  shows "fst (fst (map_vesa_fbuffer p vm vbeinfo base)) =
           (case rsv of
              None \<Rightarrow> base1
            | Some r \<Rightarrow>
                if fst (map_ut_alloc_reservation_with_base_paddr p vm1
                          (ucast (physBasePtr (vbeModeInfoBlock vbeinfo))) r) \<noteq> 0
                then 0 else base1)"
    and "snd (fst (map_vesa_fbuffer p vm vbeinfo base)) =
           ucast (vmm_plat_vesa_fbuffer_size (vbeModeInfoBlock vbeinfo))"
  using assms
  by (auto simp add: map_vesa_fbuffer_def Let_def split: prod.splits option.splits)

lemma make_guest_screen_info_zero_or_populated:
  fixes p :: "'x platform" and vm :: "'x vm_t" and info :: screen_info
    and result vbeinfo m pm_rsv pm fb_rsv base info'
  defines "result \<equiv> fst (simple_get_extended_bootinfo p vm)"
    and "vbeinfo \<equiv> snd (simple_get_extended_bootinfo p vm)"
    and "m \<equiv> vbeModeInfoBlock vbeinfo"
    and "pm_rsv \<equiv> vm_reserve_memory_at p vm (vbe_pm_aligned vbeinfo) (vbe_pm_size vbeinfo)"
    and "pm \<equiv> map_vbe_pm_interface p vm vbeinfo"
    and "fb_rsv \<equiv> vm_reserve_anon_memory p (snd pm) (ucast (vmm_plat_vesa_fbuffer_size m)) 0"
    and "base \<equiv> fst (fst (map_vesa_fbuffer p (snd pm) vbeinfo 0))"
    and "info' \<equiv> snd (make_guest_screen_info p vm info)"
  shows "(if config_VMM_VESA_FRAMEBUFFER p \<and> result \<noteq> - 1 \<and> fst pm = 0 \<and> base \<noteq> 0
          then orig_video_isVGA info' = 0x23 \<and>
               lfb_width info' = xRes m \<and>
               lfb_height info' = yRes m \<and>
               lfb_depth info' = ucast (bitsPerPixel m) \<and>
               lfb_base info' = ucast base \<and>
               lfb_size info' =
                 ucast (drop_bit 16 (ucast (vmm_plat_vesa_fbuffer_size m) :: size_t)) \<and>
               lfb_linelength info' = bytesPerScanLine m \<and>
               red_size info' = redLen m \<and> red_pos info' = redOff m \<and>
               green_size info' = greenLen m \<and> green_pos info' = greenOff m \<and>
               blue_size info' = blueLen m \<and> blue_pos info' = blueOff m \<and>
               rsvd_size info' = rsvdLen m \<and> rsvd_pos info' = rsvdOff m \<and>
               vesapm_seg info' = ucast (vbeInterfaceSeg vbeinfo) \<and>
               vesapm_off info' = ucast (vbeInterfaceOff vbeinfo) \<and>
               pages info' = ucast (planes m) \<and>
               screen_info_rest info' = screen_info_rest info
          else screen_info_all_zero info') \<and>
         (0xc000 < vbe_pm_base vbeinfo \<and>
            (fst pm_rsv = None \<or>
             (\<exists>r. fst pm_rsv = Some r \<and> fst (map_ut_alloc_reservation p (snd pm_rsv) r) \<noteq> 0))
            \<longrightarrow> fst pm \<noteq> 0) \<and>
         ((\<exists>r. fst (fst fb_rsv) = Some r \<and>
             fst (map_ut_alloc_reservation_with_base_paddr p (snd fb_rsv)
                    (ucast (physBasePtr m)) r) \<noteq> 0)
            \<longrightarrow> base = 0) \<and>
         (fst (fst fb_rsv) = None \<longrightarrow> base = snd (fst fb_rsv))"
proof -
  let ?ok = "config_VMM_VESA_FRAMEBUFFER p \<and> result \<noteq> - 1 \<and> fst pm = 0 \<and> base \<noteq> 0"
  let ?fb = "map_vesa_fbuffer p (snd pm) vbeinfo 0"
  have rsv: "vm_reserve_anon_memory p (snd pm)
      (ucast (vmm_plat_vesa_fbuffer_size (vbeModeInfoBlock vbeinfo))) 0 =
      ((fst (fst fb_rsv), snd (fst fb_rsv)), snd fb_rsv)"
    by (simp add: fb_rsv_def m_def)
  note fb = map_vesa_fbuffer_base [OF rsv]
  have eq: "info' = (if ?ok then screen_info_from_vbe vbeinfo base (snd (fst ?fb)) info
                     else screen_info_memset0 info)"
    unfolding info'_def result_def pm_def base_def vbeinfo_def make_guest_screen_info_cases
      Let_def
    by (rule refl)
  have first: "if ?ok
      then orig_video_isVGA info' = 0x23 \<and>
               lfb_width info' = xRes m \<and>
               lfb_height info' = yRes m \<and>
               lfb_depth info' = ucast (bitsPerPixel m) \<and>
               lfb_base info' = ucast base \<and>
               lfb_size info' =
                 ucast (drop_bit 16 (ucast (vmm_plat_vesa_fbuffer_size m) :: size_t)) \<and>
               lfb_linelength info' = bytesPerScanLine m \<and>
               red_size info' = redLen m \<and> red_pos info' = redOff m \<and>
               green_size info' = greenLen m \<and> green_pos info' = greenOff m \<and>
               blue_size info' = blueLen m \<and> blue_pos info' = blueOff m \<and>
               rsvd_size info' = rsvdLen m \<and> rsvd_pos info' = rsvdOff m \<and>
               vesapm_seg info' = ucast (vbeInterfaceSeg vbeinfo) \<and>
               vesapm_off info' = ucast (vbeInterfaceOff vbeinfo) \<and>
               pages info' = ucast (planes m) \<and>
               screen_info_rest info' = screen_info_rest info
      else screen_info_all_zero info'"
  proof (cases ?ok)
    case True
    then have "info' = screen_info_from_vbe vbeinfo base (snd (fst ?fb)) info"
      by (simp add: eq)
    with True show ?thesis
      by (simp add: screen_info_from_vbe_def Let_def fb(2) m_def)
  next
    case False
    then have "info' = screen_info_memset0 info"
      by (auto simp add: eq)
    with False show ?thesis
      by (auto simp add: screen_info_memset0_all_zero)
  qed
  have pm_fail: "fst pm \<noteq> 0"
    if "0xc000 < vbe_pm_base vbeinfo"
      and "fst pm_rsv = None \<or>
           (\<exists>r. fst pm_rsv = Some r \<and> fst (map_ut_alloc_reservation p (snd pm_rsv) r) \<noteq> 0)"
    unfolding pm_def
    by (rule map_vbe_pm_interface_fails [OF that(1), of p vm "fst pm_rsv" "snd pm_rsv"])
      (use that(2) in \<open>simp_all add: pm_rsv_def\<close>)
  have map_fail: "base = 0"
    if "\<exists>r. fst (fst fb_rsv) = Some r \<and>
          fst (map_ut_alloc_reservation_with_base_paddr p (snd fb_rsv)
                 (ucast (physBasePtr m)) r) \<noteq> 0"
    using that fb(1) by (auto simp add: base_def m_def)
  have rsv_fail: "base = snd (fst fb_rsv)" if "fst (fst fb_rsv) = None"
    using that fb(1) by (simp add: base_def)
  from first pm_fail map_fail rsv_fail show ?thesis by blast
qed

text \<open>The success case on the concrete platform: every named field comes from the mode.\<close>

lemma make_guest_screen_info_example:
  "snd (make_guest_screen_info (example_platform True 0x7000) example_vm
          (screen_info_memset0 example_uninit_screen_info)) =
     \<lparr>orig_video_isVGA = 0x23, lfb_width = 1024, lfb_height = 768, lfb_depth = 32,
      lfb_base = 0xE0000000, lfb_size = 0x30, lfb_linelength = 4096,
      red_size = 8, red_pos = 16, green_size = 8, green_pos = 8,
      blue_size = 8, blue_pos = 0, rsvd_size = 8, rsvd_pos = 24,
      vesapm_seg = 0xC000, vesapm_off = 0x1000, pages = 1,
      screen_info_rest = [0, 0]\<rparr>"
  by (simp add: make_guest_screen_info_def map_vbe_pm_interface_def map_vesa_fbuffer_def
      example_platform_def example_vbe_def vbe_pm_base_def screen_info_from_vbe_def
      screen_info_memset0_def example_uninit_screen_info_def vmm_plat_vesa_fbuffer_size_def
      ALIGN_UP_def Let_def)

lemma make_guest_screen_info_example_mapping_fails:
  "screen_info_all_zero
     (snd (make_guest_screen_info
        ((example_platform True 0x7000)
           \<lparr>map_ut_alloc_reservation_with_base_paddr := (\<lambda>vm addr r. (- 1, vm))\<rparr>)
        example_vm example_uninit_screen_info))"
  by (simp add: make_guest_screen_info_def map_vbe_pm_interface_def map_vesa_fbuffer_def
      example_platform_def example_vbe_def vbe_pm_base_def screen_info_memset0_all_zero
      Let_def)


section \<open>Properties of the boot parameters\<close>

lemma make_guest_boot_info_touch:
  assumes "vm_ram_allocate p vm (sizeof_boot_params p) = (addr, vm1)" and "addr \<noteq> 0"
    and "populate_boot_params p (vm1\<lparr>guest_boot_info := addr\<rparr>) uninit guest_cmd_addr
           guest_cmd_len guest_kernel_load_addr guest_kernel_alignment guest_ramdisk_load_addr
           guest_ramdisk_size = Inr (vm3, b)"
  shows "make_guest_boot_info p vm uninit guest_cmd_addr guest_cmd_len guest_kernel_load_addr
           guest_kernel_alignment guest_ramdisk_load_addr guest_ramdisk_size =
         Inr (vm_ram_touch p vm3 addr (sizeof_boot_params p) (Touch_boot_params b))"
  using assms by (simp add: make_guest_boot_info_def Let_def)

lemma populate_boot_params_Inr:
  assumes "populate_boot_params p vm uninit guest_cmd_addr guest_cmd_len guest_kernel_load_addr
             guest_kernel_alignment guest_ramdisk_load_addr guest_ramdisk_size = Inr (vm', b)"
  obtains info e820 n where
    "make_guest_screen_info p vm (screen_info_memset0 (screen_info uninit)) = (vm', info)"
    and "make_guest_e820_map (E820MAX p) e820_zeroed (ram_regions vm') = Inr (e820, n)"
    and "b = \<lparr>screen_info = info, alt_mem_k = 0, e820_entries = of_nat n,
             hdr = set_ramdisk guest_ramdisk_load_addr guest_ramdisk_size
                     \<lparr>version = 0, root_dev = 0, header = 0x53726448, boot_flag = 0xAA55,
                      type_of_loader = 0xFF, code32_start = ucast guest_kernel_load_addr,
                      ramdisk_image = 0, ramdisk_size = 0,
                      cmd_line_ptr = ucast guest_cmd_addr,
                      kernel_alignment = ucast guest_kernel_alignment,
                      relocatable_kernel = 1, cmdline_size = ucast guest_cmd_len,
                      setup_header_rest = map (\<lambda>b. 0) (setup_header_rest (hdr uninit))\<rparr>,
             e820_map = e820,
             boot_params_rest = map (\<lambda>b. 0) (boot_params_rest uninit)\<rparr>"
  using assms
  by (auto simp add: populate_boot_params_def boot_params_memset0_def Let_def
      split: prod.splits sum.splits)

lemma example_populate:
  "\<exists>b. populate_boot_params (example_platform False 0x7000)
          (example_vm\<lparr>guest_boot_info := 0x7000\<rparr>) example_uninit 0x6000 13 0x100000 0x1000
          guest_ramdisk_load_addr guest_ramdisk_size =
        Inr (example_vm\<lparr>guest_boot_info := 0x7000\<rparr>, b)"
  by (simp add: populate_boot_params_def make_guest_screen_info_def example_platform_def
      example_vm_def boot_params_memset0_def e820_example_run Let_def)

text \<open>
  Claim C6. In the structure that \<^verbatim>\<open>make_guest_boot_info\<close> hands to
  \<^verbatim>\<open>vm_ram_touch\<close>, the header version is \<open>0x0204\<close> when the ramdisk load address is
  non-zero, and then the ramdisk image pointer, the ramdisk size and the root-device
  placeholder \<open>0x0100\<close> are set as well; the version is \<open>0x0202\<close> when the ramdisk
  load address is zero.
\<close>

theorem make_guest_boot_info_version:
  assumes alloc: "vm_ram_allocate p vm (sizeof_boot_params p) = (addr, vm1)" and ok: "addr \<noteq> 0"
    and pop: "populate_boot_params p (vm1\<lparr>guest_boot_info := addr\<rparr>) uninit guest_cmd_addr
           guest_cmd_len guest_kernel_load_addr guest_kernel_alignment guest_ramdisk_load_addr
           guest_ramdisk_size = Inr (vm3, b)"
  shows "make_guest_boot_info p vm uninit guest_cmd_addr guest_cmd_len guest_kernel_load_addr
           guest_kernel_alignment guest_ramdisk_load_addr guest_ramdisk_size =
         Inr (vm_ram_touch p vm3 addr (sizeof_boot_params p) (Touch_boot_params b)) \<and>
         (guest_ramdisk_load_addr \<noteq> 0 \<longrightarrow>
            version (hdr b) = 0x0204 \<and>
            ramdisk_image (hdr b) = ucast guest_ramdisk_load_addr \<and>
            ramdisk_size (hdr b) = ucast guest_ramdisk_size \<and>
            root_dev (hdr b) = 0x0100) \<and>
         (guest_ramdisk_load_addr = 0 \<longrightarrow> version (hdr b) = 0x0202)"
proof -
  from pop obtain info e820 n where
    "hdr b = set_ramdisk guest_ramdisk_load_addr guest_ramdisk_size
                     \<lparr>version = 0, root_dev = 0, header = 0x53726448, boot_flag = 0xAA55,
                      type_of_loader = 0xFF, code32_start = ucast guest_kernel_load_addr,
                      ramdisk_image = 0, ramdisk_size = 0,
                      cmd_line_ptr = ucast guest_cmd_addr,
                      kernel_alignment = ucast guest_kernel_alignment,
                      relocatable_kernel = 1, cmdline_size = ucast guest_cmd_len,
                      setup_header_rest = map (\<lambda>b. 0) (setup_header_rest (hdr uninit))\<rparr>"
    by (rule populate_boot_params_Inr) simp
  then have "(guest_ramdisk_load_addr \<noteq> 0 \<longrightarrow>
            version (hdr b) = 0x0204 \<and>
            ramdisk_image (hdr b) = ucast guest_ramdisk_load_addr \<and>
            ramdisk_size (hdr b) = ucast guest_ramdisk_size \<and>
            root_dev (hdr b) = 0x0100) \<and>
         (guest_ramdisk_load_addr = 0 \<longrightarrow> version (hdr b) = 0x0202)"
    by (simp add: set_ramdisk_def)
  with make_guest_boot_info_touch [OF alloc ok pop] show ?thesis by simp
qed

theorem make_guest_boot_info_version_witness:
  "\<exists>b. make_guest_boot_info (example_platform False 0x7000) example_vm example_uninit
          0x6000 13 0x100000 0x1000 0x800000 0x10000 =
        Inr (vm_ram_touch (example_platform False 0x7000)
               (example_vm\<lparr>guest_boot_info := 0x7000\<rparr>) 0x7000 4096 (Touch_boot_params b)) \<and>
       version (hdr b) = 0x0204 \<and> root_dev (hdr b) = 0x0100 \<and>
       ramdisk_image (hdr b) = 0x800000 \<and> ramdisk_size (hdr b) = 0x10000"
proof -
  from example_populate [of "0x800000" "0x10000"] obtain b where
    pop: "populate_boot_params (example_platform False 0x7000)
          (example_vm\<lparr>guest_boot_info := 0x7000\<rparr>) example_uninit 0x6000 13 0x100000 0x1000
          0x800000 0x10000 = Inr (example_vm\<lparr>guest_boot_info := 0x7000\<rparr>, b)"
    by blast
  have alloc: "vm_ram_allocate (example_platform False 0x7000) example_vm
        (sizeof_boot_params (example_platform False 0x7000)) = (0x7000, example_vm)"
    by (simp add: example_platform_def)
  have size: "sizeof_boot_params (example_platform False 0x7000) = 4096"
    by (simp add: example_platform_def)
  from make_guest_boot_info_version [OF alloc _ pop] show ?thesis
    by (auto simp add: size)
qed

lemma e820_add_region_untouched:
  assumes "e820_add_region mx r (e, n) = Inr (e', n')"
  shows "n \<le> n' \<and> (\<forall>i>n'. e' i = e i)"
  using assms
  by (auto simp add: e820_add_region_def e820_finish_region_def e820_pad_region_def
      e820_increase_def Let_def split: if_splits)

lemma e820_regions_loop_untouched:
  assumes "e820_regions_loop mx rs (e, n) = Inr (e', n')"
  shows "n \<le> n' \<and> (\<forall>i>n'. e' i = e i)"
  using assms
proof (induction rs arbitrary: e n)
  case Nil
  then show ?case by simp
next
  case (Cons r rs)
  from Cons.prems obtain e1 n1
    where step: "e820_add_region mx r (e, n) = Inr (e1, n1)"
      and rest: "e820_regions_loop mx rs (e1, n1) = Inr (e', n')"
    by (cases "e820_add_region mx r (e, n)") auto
  from e820_add_region_untouched [OF step] Cons.IH [OF rest] show ?case by auto
qed

lemma make_guest_e820_map_untouched:
  assumes "make_guest_e820_map mx e rs = Inr (e', n)"
  shows "\<forall>i\<ge>n. e' i = e i"
proof -
  let ?e0 = "e(0 := \<lparr>e820_addr = 0, e820_size = 0, e820_type = E820_RESERVED\<rparr>)"
  from assms obtain e1 n1 where loop: "e820_regions_loop mx rs (?e0, 0) = Inr (e1, n1)"
    and n: "n = n1 + 2"
    and e': "e' = e1(n1 + 1 := \<lparr>e820_addr = e820_addr (e1 n1) + e820_size (e1 n1),
               e820_size = 0x100000000 - (e820_addr (e1 n1) + e820_size (e1 n1)),
               e820_type = E820_RESERVED\<rparr>)"
    by (auto simp add: make_guest_e820_map_def Let_def simp del: upt_Suc fun_upd_apply
        split: if_splits sum.splits prod.splits)
  from e820_regions_loop_untouched [OF loop] have "\<forall>i>n1. e1 i = ?e0 i" by simp
  then show ?thesis by (simp add: n e')
qed

lemma make_guest_screen_info_rest:
  "screen_info_rest (snd (make_guest_screen_info p vm info)) = map (\<lambda>b. 0) (screen_info_rest info)
   \<or> screen_info_rest (snd (make_guest_screen_info p vm info)) = screen_info_rest info"
  by (simp add: make_guest_screen_info_cases Let_def screen_info_from_vbe_def
      screen_info_memset0_def)

text \<open>
  Claim C9. \<^verbatim>\<open>make_guest_boot_info\<close> zero-fills the local structure before it
  populates it: whatever the local held before, in the structure handed to
  \<^verbatim>\<open>vm_ram_touch\<close> the field \<^verbatim>\<open>alt_mem_k\<close> is zero, every byte of the fields the
  function never names (in the structure, in its header and in the screen information)
  is zero, the ramdisk fields are zero when no ramdisk is given, and every entry of the
  E820 array from the count that \<^verbatim>\<open>make_guest_e820_map\<close> returned on is zero.
\<close>

theorem make_guest_boot_info_unassigned_zero:
  assumes alloc: "vm_ram_allocate p vm (sizeof_boot_params p) = (addr, vm1)" and ok: "addr \<noteq> 0"
    and pop: "populate_boot_params p (vm1\<lparr>guest_boot_info := addr\<rparr>) uninit guest_cmd_addr
           guest_cmd_len guest_kernel_load_addr guest_kernel_alignment guest_ramdisk_load_addr
           guest_ramdisk_size = Inr (vm3, b)"
  shows "make_guest_boot_info p vm uninit guest_cmd_addr guest_cmd_len guest_kernel_load_addr
           guest_kernel_alignment guest_ramdisk_load_addr guest_ramdisk_size =
         Inr (vm_ram_touch p vm3 addr (sizeof_boot_params p) (Touch_boot_params b)) \<and>
         alt_mem_k b = 0 \<and>
         list_all (\<lambda>x. x = 0) (boot_params_rest b) \<and>
         list_all (\<lambda>x. x = 0) (setup_header_rest (hdr b)) \<and>
         list_all (\<lambda>x. x = 0) (screen_info_rest (screen_info b)) \<and>
         (guest_ramdisk_load_addr = 0 \<longrightarrow>
            ramdisk_image (hdr b) = 0 \<and> ramdisk_size (hdr b) = 0 \<and> root_dev (hdr b) = 0) \<and>
         (\<exists>n. make_guest_e820_map (E820MAX p) e820_zeroed (ram_regions vm3) =
                Inr (e820_map b, n) \<and>
              e820_entries b = of_nat n \<and> (\<forall>i\<ge>n. e820_map b i = e820_zeroed i))"
proof -
  from pop obtain info e820 n where
    info: "make_guest_screen_info p (vm1\<lparr>guest_boot_info := addr\<rparr>)
             (screen_info_memset0 (screen_info uninit)) = (vm3, info)"
    and map: "make_guest_e820_map (E820MAX p) e820_zeroed (ram_regions vm3) = Inr (e820, n)"
    and b: "b = \<lparr>screen_info = info, alt_mem_k = 0, e820_entries = of_nat n,
             hdr = set_ramdisk guest_ramdisk_load_addr guest_ramdisk_size
                     \<lparr>version = 0, root_dev = 0, header = 0x53726448, boot_flag = 0xAA55,
                      type_of_loader = 0xFF, code32_start = ucast guest_kernel_load_addr,
                      ramdisk_image = 0, ramdisk_size = 0,
                      cmd_line_ptr = ucast guest_cmd_addr,
                      kernel_alignment = ucast guest_kernel_alignment,
                      relocatable_kernel = 1, cmdline_size = ucast guest_cmd_len,
                      setup_header_rest = map (\<lambda>b. 0) (setup_header_rest (hdr uninit))\<rparr>,
             e820_map = e820,
             boot_params_rest = map (\<lambda>b. 0) (boot_params_rest uninit)\<rparr>"
    by (rule populate_boot_params_Inr)
  have "alt_mem_k b = 0" and "list_all (\<lambda>x. x = 0) (boot_params_rest b)"
    by (simp_all add: b list_all_iff)
  moreover have "list_all (\<lambda>x. x = 0) (setup_header_rest (hdr b))"
    by (simp add: b set_ramdisk_def list_all_iff)
  moreover have "list_all (\<lambda>x. x = 0) (screen_info_rest (screen_info b))"
  proof -
    let ?z = "screen_info_memset0 (screen_info uninit)"
    have "screen_info_rest info = map (\<lambda>b. 0) (screen_info_rest ?z) \<or>
        screen_info_rest info = screen_info_rest ?z"
      using make_guest_screen_info_rest [of p "vm1\<lparr>guest_boot_info := addr\<rparr>" ?z]
      by (simp add: info)
    moreover have "list_all (\<lambda>x. x = 0) (screen_info_rest ?z)"
      by (simp add: screen_info_memset0_def list_all_iff)
    ultimately show ?thesis
      by (auto simp add: b list_all_iff)
  qed
  moreover have "guest_ramdisk_load_addr = 0 \<longrightarrow>
      ramdisk_image (hdr b) = 0 \<and> ramdisk_size (hdr b) = 0 \<and> root_dev (hdr b) = 0"
    by (simp add: b set_ramdisk_def)
  moreover have "\<exists>n. make_guest_e820_map (E820MAX p) e820_zeroed (ram_regions vm3) =
                Inr (e820_map b, n) \<and>
              e820_entries b = of_nat n \<and> (\<forall>i\<ge>n. e820_map b i = e820_zeroed i)"
    using make_guest_e820_map_untouched [OF map] map by (auto simp add: b)
  ultimately show ?thesis
    using make_guest_boot_info_touch [OF alloc ok pop] by simp
qed

theorem make_guest_boot_info_unassigned_zero_witness:
  "\<exists>b. make_guest_boot_info (example_platform False 0x7000) example_vm example_uninit
          0x6000 13 0x100000 0x1000 0 0 =
        Inr (vm_ram_touch (example_platform False 0x7000)
               (example_vm\<lparr>guest_boot_info := 0x7000\<rparr>) 0x7000 4096 (Touch_boot_params b)) \<and>
       alt_mem_k b = 0 \<and> ramdisk_image (hdr b) = 0 \<and> ramdisk_size (hdr b) = 0 \<and>
       root_dev (hdr b) = 0 \<and> boot_params_rest b = [0, 0] \<and>
       setup_header_rest (hdr b) = [0, 0]"
proof -
  from example_populate [of 0 0] obtain b where
    pop: "populate_boot_params (example_platform False 0x7000)
          (example_vm\<lparr>guest_boot_info := 0x7000\<rparr>) example_uninit 0x6000 13 0x100000 0x1000
          0 0 = Inr (example_vm\<lparr>guest_boot_info := 0x7000\<rparr>, b)"
    by blast
  have alloc: "vm_ram_allocate (example_platform False 0x7000) example_vm
        (sizeof_boot_params (example_platform False 0x7000)) = (0x7000, example_vm)"
    by (simp add: example_platform_def)
  have size: "sizeof_boot_params (example_platform False 0x7000) = 4096"
    by (simp add: example_platform_def)
  have len: "length (boot_params_rest b) = 2" "length (setup_header_rest (hdr b)) = 2"
    using pop by (auto elim!: populate_boot_params_Inr simp add: example_uninit_def set_ramdisk_def)
  have two: "xs = [0, 0]" if "length xs = 2" "list_all (\<lambda>x. x = 0) xs" for xs :: "u8 list"
    using that by (cases xs; cases "tl xs") auto
  have nz: "(0x7000 :: uintptr_t) \<noteq> 0" by simp
  note zeroed = make_guest_boot_info_unassigned_zero [OF alloc nz pop]
  from zeroed have "list_all (\<lambda>x. x = 0) (boot_params_rest b)"
    and "list_all (\<lambda>x. x = 0) (setup_header_rest (hdr b))"
    by simp_all
  with len have rest: "boot_params_rest b = [0, 0]" "setup_header_rest (hdr b) = [0, 0]"
    by (simp_all add: two)
  from zeroed
  have "make_guest_boot_info (example_platform False 0x7000) example_vm example_uninit
          0x6000 13 0x100000 0x1000 0 0 =
        Inr (vm_ram_touch (example_platform False 0x7000)
               (example_vm\<lparr>guest_boot_info := 0x7000\<rparr>) 0x7000 4096 (Touch_boot_params b)) \<and>
       alt_mem_k b = 0 \<and> ramdisk_image (hdr b) = 0 \<and> ramdisk_size (hdr b) = 0 \<and>
       root_dev (hdr b) = 0 \<and> boot_params_rest b = [0, 0] \<and>
       setup_header_rest (hdr b) = [0, 0]"
    using rest by (simp add: size)
  then show ?thesis by (rule exI)
qed

section \<open>Properties of the boot-structure construction\<close>

text \<open>
  Claim C7. When \<^verbatim>\<open>vm_ram_allocate\<close> returns address zero for the command line,
  \<^verbatim>\<open>make_guest_cmd_line\<close> returns -1 to its caller with the out-parameters
  unwritten, and \<^verbatim>\<open>vmm_plat_init_guest_boot_structure\<close> stops at its first
  \<^verbatim>\<open>assert(!err)\<close> with the VM as the allocator left it: neither the boot parameters
  nor the ACPI tables are built, and no collaborator other than the allocator has any
  influence on the outcome.
\<close>

theorem vmm_plat_init_guest_boot_structure_cmdline_alloc_fails:
  fixes p :: "'x platform" and cmdline :: string and sz
  defines "sz \<equiv> word_of_int (sint (word_of_nat (length cmdline) :: 32 word) + 1)"
  assumes zero: "fst (vm_ram_allocate p vm sz) = 0"
  shows "make_guest_cmd_line p vm cmdline out = (- 1, snd (vm_ram_allocate p vm sz), out) \<and>
         vmm_plat_init_guest_boot_structure p vm out uninit cmdline guest_kernel_load_addr
             guest_kernel_alignment guest_ramdisk_load_addr guest_ramdisk_size =
           Inl (Assert_cmd_line, snd (vm_ram_allocate p vm sz)) \<and>
         (\<forall>p'. vm_ram_allocate p' = vm_ram_allocate p \<longrightarrow>
            vmm_plat_init_guest_boot_structure p' vm out uninit cmdline guest_kernel_load_addr
              guest_kernel_alignment guest_ramdisk_load_addr guest_ramdisk_size =
            vmm_plat_init_guest_boot_structure p vm out uninit cmdline guest_kernel_load_addr
              guest_kernel_alignment guest_ramdisk_load_addr guest_ramdisk_size)"
proof -
  obtain a vm1 where alloc: "vm_ram_allocate p vm sz = (a, vm1)"
    by (cases "vm_ram_allocate p vm sz")
  with zero have a: "a = 0" by simp
  have cmd: "make_guest_cmd_line q vm cmdline out = (- 1, snd (vm_ram_allocate p vm sz), out)"
    if "vm_ram_allocate q = vm_ram_allocate p" for q :: "'x platform"
    using alloc that unfolding sz_def by (simp add: make_guest_cmd_line_def Let_def a)
  then have top: "vmm_plat_init_guest_boot_structure q vm out uninit cmdline
        guest_kernel_load_addr guest_kernel_alignment guest_ramdisk_load_addr
        guest_ramdisk_size = Inl (Assert_cmd_line, snd (vm_ram_allocate p vm sz))"
    if "vm_ram_allocate q = vm_ram_allocate p" for q :: "'x platform"
    using that by (simp add: vmm_plat_init_guest_boot_structure_def)
  from cmd [of p] top [of p] top show ?thesis by simp
qed

theorem vmm_plat_init_guest_boot_structure_cmdline_alloc_fails_witness:
  "make_guest_cmd_line (example_platform False 0) example_vm ''console=ttyS0'' (0xAAAA, 0xAAAA) =
     (- 1, example_vm, (0xAAAA, 0xAAAA)) \<and>
   vmm_plat_init_guest_boot_structure (example_platform False 0) example_vm (0xAAAA, 0xAAAA)
       example_uninit ''console=ttyS0'' 0x100000 0x1000 0 0 =
     Inl (Assert_cmd_line, example_vm)"
  using vmm_plat_init_guest_boot_structure_cmdline_alloc_fails
    [where p = "example_platform False 0" and vm = example_vm and cmdline = "''console=ttyS0''"
       and out = "(0xAAAA, 0xAAAA)" and uninit = example_uninit
       and guest_kernel_load_addr = "0x100000" and guest_kernel_alignment = "0x1000"
       and guest_ramdisk_load_addr = 0 and guest_ramdisk_size = 0]
  by (simp add: example_platform_def)

section \<open>Properties of the I/O port dispatch\<close>

lemma range_ports_intersect:
  assumes "range_ports a \<inter> range_ports b \<noteq> {}"
  shows "range_start a \<le> range_end a \<and> ranges_intersect a b"
proof -
  from assms obtain x where "x \<in> range_ports a" "x \<in> range_ports b" by blast
  then show ?thesis
    by (auto simp add: range_ports_def ranges_intersect_def word_le_nat_alt)
qed

lemma example_io_list_eq:
  "example_io_list =
     \<lparr>num_ioports = 1,
      ioports = [\<lparr>entry_range = \<lparr>range_start = 0x60, range_end = 0x64\<rparr>,
                  entry_interface = example_interface, ioport_type = IOPORT_EMULATED\<rparr>]\<rparr>"
  by (simp add: example_io_list_def vmm_io_port_add_handler_def vmm_io_port_init_def)

text \<open>
  Claim C2. \<^verbatim>\<open>vmm_io_port_add_handler\<close> fails with the overlap error whenever the new
  inclusive range shares a port with the range of an entry already in the table, and the
  table is then unchanged. The witness is the run of the spec: \<open>[0x60, 0x64]\<close> is
  registered, \<open>[0x62, 0x66]\<close> is refused, and the table still holds the first range
  only.
\<close>

theorem vmm_io_port_add_handler_overlap:
  assumes "e \<in> set (ioports io_list)"
    and "range_ports ioport_range \<inter> range_ports (entry_range e) \<noteq> {}"
  shows "vmm_io_port_add_handler io_list ioport_range ioport_interface = (OverlapError, io_list)"
proof -
  from range_ports_intersect [OF assms(2)]
  have "range_start ioport_range \<le> range_end ioport_range"
    and "ranges_intersect ioport_range (entry_range e)"
    by simp_all
  with assms(1) show ?thesis
    by (auto simp add: vmm_io_port_add_handler_def list_ex_iff)
qed

theorem vmm_io_port_add_handler_overlap_witness:
  "vmm_io_port_add_handler vmm_io_port_init \<lparr>range_start = 0x60, range_end = 0x64\<rparr>
     example_interface = (Ok, example_io_list) \<and>
   vmm_io_port_add_handler example_io_list \<lparr>range_start = 0x62, range_end = 0x66\<rparr>
     example_interface = (OverlapError, example_io_list) \<and>
   map entry_range (ioports example_io_list) = [\<lparr>range_start = 0x60, range_end = 0x64\<rparr>]"
proof -
  have first: "vmm_io_port_add_handler vmm_io_port_init \<lparr>range_start = 0x60, range_end = 0x64\<rparr>
     example_interface = (Ok, example_io_list)"
    by (simp add: example_io_list_def vmm_io_port_add_handler_def vmm_io_port_init_def)
  have "(0x62 :: nat) \<in> range_ports \<lparr>range_start = 0x62, range_end = 0x66\<rparr> \<inter>
      range_ports \<lparr>range_start = 0x60, range_end = 0x64\<rparr>"
    by (simp add: range_ports_def)
  then have meet: "range_ports \<lparr>range_start = 0x62, range_end = 0x66\<rparr> \<inter>
      range_ports (entry_range \<lparr>entry_range = \<lparr>range_start = 0x60, range_end = 0x64\<rparr>,
                  entry_interface = example_interface, ioport_type = IOPORT_EMULATED\<rparr>) \<noteq> {}"
    by auto
  have mem: "\<lparr>entry_range = \<lparr>range_start = 0x60, range_end = 0x64\<rparr>,
              entry_interface = example_interface, ioport_type = IOPORT_EMULATED\<rparr>
      \<in> set (ioports example_io_list)"
    by (simp add: example_io_list_eq)
  from vmm_io_port_add_handler_overlap [OF mem meet, of example_interface] first show ?thesis
    by (simp add: example_io_list_eq)
qed

lemma search_port_None:
  "search_port io_port port_no = None \<longleftrightarrow>
     \<not> (\<exists>e\<in>set (ioports io_port). unat port_no \<in> range_ports (entry_range e))"
  by (auto simp add: search_port_def find_None_iff range_ports_def)

lemma search_port_Some:
  assumes "search_port io_port port_no = Some e"
  shows "e \<in> set (ioports io_port) \<and> unat port_no \<in> range_ports (entry_range e)"
  using assms by (auto simp add: search_port_def find_Some_iff range_ports_def)

text \<open>
  Claim C3. \<^verbatim>\<open>emulate_io_handler\<close> returns one of 0 (handled), 1 (unhandled) and -1
  (error). When no registered range contains the port it returns 1 and the data is
  unchanged. When some range contains the port, the lookup finds an entry that does, and
  the result is that of the entry's handler: for an input, 0 with the handler's result
  as data when the handler returns 0, and -1 otherwise; for an output, the handler is
  given the data, and the result is 0 when it returns 0 and -1 otherwise.
\<close>

theorem emulate_io_handler_outcomes:
  "fst (emulate_io_handler io_port port_no is_in sz data) \<in> {0, 1, - 1} \<and>
   (\<not> (\<exists>e\<in>set (ioports io_port). unat port_no \<in> range_ports (entry_range e)) \<longrightarrow>
      emulate_io_handler io_port port_no is_in sz data = (1, data)) \<and>
   ((\<exists>e\<in>set (ioports io_port). unat port_no \<in> range_ports (entry_range e)) \<longrightarrow>
      (\<exists>e\<in>set (ioports io_port). unat port_no \<in> range_ports (entry_range e) \<and>
         search_port io_port port_no = Some e \<and>
         emulate_io_handler io_port port_no is_in sz data =
           (if is_in then
              (if fst (port_in (entry_interface e) (cookie (entry_interface e)) port_no
                         (ucast sz)) = 0
               then (0, snd (port_in (entry_interface e) (cookie (entry_interface e)) port_no
                               (ucast sz)))
               else (- 1, data))
            else
              (if port_out (entry_interface e) (cookie (entry_interface e)) port_no
                    (ucast sz) data = 0
               then (0, data) else (- 1, data)))))"
proof (cases "search_port io_port port_no")
  case None
  then have "\<not> (\<exists>e\<in>set (ioports io_port). unat port_no \<in> range_ports (entry_range e))"
    by (simp add: search_port_None)
  with None show ?thesis
    by (simp add: emulate_io_handler_def)
next
  case (Some e)
  note found = search_port_Some [OF Some]
  have run: "emulate_io_handler io_port port_no is_in sz data =
           (if is_in then
              (if fst (port_in (entry_interface e) (cookie (entry_interface e)) port_no
                         (ucast sz)) = 0
               then (0, snd (port_in (entry_interface e) (cookie (entry_interface e)) port_no
                               (ucast sz)))
               else (- 1, data))
            else
              (if port_out (entry_interface e) (cookie (entry_interface e)) port_no
                    (ucast sz) data = 0
               then (0, data) else (- 1, data)))"
    using Some by (simp add: emulate_io_handler_def Let_def split: prod.splits)
  then have "fst (emulate_io_handler io_port port_no is_in sz data) \<in> {0, 1, - 1}"
    by simp
  with found Some run show ?thesis by blast
qed

theorem emulate_io_handler_outcomes_witness:
  "emulate_io_handler example_io_list 0x65 True 1 0xAB = (1, 0xAB) \<and>
   emulate_io_handler example_io_list 0x60 True 1 0xAB = (0, 0x1C) \<and>
   emulate_io_handler example_io_list 0x60 False 1 0xAB = (0, 0xAB) \<and>
   emulate_io_handler example_io_list 0x60 False 1 0xFF = (- 1, 0xFF)"
  using emulate_io_handler_outcomes [of example_io_list "0x65" True 1 "0xAB"]
    emulate_io_handler_outcomes [of example_io_list "0x60" True 1 "0xAB"]
    emulate_io_handler_outcomes [of example_io_list "0x60" False 1 "0xAB"]
    emulate_io_handler_outcomes [of example_io_list "0x60" False 1 "0xFF"]
  by (simp add: example_io_list_eq range_ports_def example_interface_def)

end
